theory Spec2Isabelle
  imports Main "HOL-Library.AList"
begin

section \<open>JSON payloads as Python sees them\<close>

text \<open>
  The documents handled by \<^verbatim>\<open>dv01_dbt_helper.py\<close> are what \<^verbatim>\<open>response.json()\<close>
  returns: \<^verbatim>\<open>None\<close>, booleans, integers, strings, lists and dicts with string keys.
  A Python dict keeps its keys in insertion order and holds each key once, so a dict
  is an association list; the predicate \<open>wf_json\<close> states that keys are not repeated.
  Floating-point leaves are left out of the embedding.
\<close>

datatype json =
    JNull
  | JBool bool
  | JInt int
  | JStr string
  | JList "json list"
  | JDict "(string \<times> json) list"

type_synonym dict = "(string \<times> json) list"

fun wf_json :: "json \<Rightarrow> bool" where
  "wf_json (JList xs) = list_all wf_json xs"
| "wf_json (JDict kvs) = (distinct (map fst kvs) \<and> list_all (\<lambda>kv. wf_json (snd kv)) kvs)"
| "wf_json _ = True"

section \<open>Config Merger: \<^verbatim>\<open>DMSClient._deep_merge_with_priority\<close>\<close>

text \<open>
  \<^verbatim>\<open>
  def _deep_merge_with_priority(self, base, override):
      merged = base.copy()
      for key, override_value in override.items():
          if (key in merged and isinstance(merged[key], dict)
                  and isinstance(override_value, dict)):
              merged[key] = self._deep_merge_with_priority(merged[key], override_value)
          else:
              merged[key] = override_value
      return merged
  \<close>
  The first argument of \<open>deep_merge\<close> is \<^verbatim>\<open>merged\<close>, which starts as the copy of
  \<^verbatim>\<open>base\<close>; the second is what is left of \<^verbatim>\<open>override.items()\<close>. A store
  \<^verbatim>\<open>merged[key] = v\<close> keeps the position of a key that is present and appends a new
  key, which is \<open>AList.update\<close>.
\<close>

function deep_merge :: "dict \<Rightarrow> dict \<Rightarrow> dict" where
  "deep_merge merged [] = merged"
| "deep_merge merged ((key, override_value) # items) =
     (case (map_of merged key, override_value) of
        (Some (JDict b), JDict ov) \<Rightarrow>
          deep_merge (AList.update key (JDict (deep_merge b ov)) merged) items
      | _ \<Rightarrow> deep_merge (AList.update key override_value merged) items)"
  by pat_completeness auto
termination
  by (relation "measure (\<lambda>(m, items). size_list (size_prod (\<lambda>_. 0) size) items)") auto

text \<open>What one iteration of the loop stores under \<open>key\<close>.\<close>

definition merged_entry :: "dict \<Rightarrow> string \<Rightarrow> json \<Rightarrow> json" where
  "merged_entry merged key override_value =
     (case (map_of merged key, override_value) of
        (Some (JDict b), JDict ov) \<Rightarrow> JDict (deep_merge b ov)
      | _ \<Rightarrow> override_value)"

section \<open>Python values, exceptions and formatting\<close>

text \<open>Truth value of a JSON payload under \<^verbatim>\<open>not x\<close> and \<^verbatim>\<open>x or y\<close>.\<close>

fun truthy :: "json \<Rightarrow> bool" where
  "truthy JNull = False"
| "truthy (JBool b) = b"
| "truthy (JInt i) = (i \<noteq> 0)"
| "truthy (JStr s) = (s \<noteq> [])"
| "truthy (JList xs) = (xs \<noteq> [])"
| "truthy (JDict kvs) = (kvs \<noteq> [])"

text \<open>
  Every exception the module can raise. \<open>ValueError\<close> carries its message, since the
  module raises this one class at six places and only the message tells them apart;
  \<open>HTTPError\<close> is what \<^verbatim>\<open>raise_for_status\<close> raises, with the status code;
  \<open>CollaboratorError\<close> stands for whatever the transport or the secret store raises.
\<close>

datatype error =
    ValueError string
  | HTTPError nat
  | AttributeError
  | KeyError string
  | IndexError
  | TypeError
  | JSONDecodeError
  | CollaboratorError string

datatype exception_type =
    ValueErrorType
  | HTTPErrorType
  | AttributeErrorType
  | KeyErrorType
  | IndexErrorType
  | TypeErrorType
  | JSONDecodeErrorType
  | CollaboratorErrorType

fun type_of_error :: "error \<Rightarrow> exception_type" where
  "type_of_error (ValueError m) = ValueErrorType"
| "type_of_error (HTTPError n) = HTTPErrorType"
| "type_of_error AttributeError = AttributeErrorType"
| "type_of_error (KeyError k) = KeyErrorType"
| "type_of_error IndexError = IndexErrorType"
| "type_of_error TypeError = TypeErrorType"
| "type_of_error JSONDecodeError = JSONDecodeErrorType"
| "type_of_error (CollaboratorError m) = CollaboratorErrorType"

text \<open>\<^verbatim>\<open>str(i)\<close> for an integer: the decimal digits, least significant first onto \<open>acc\<close>.\<close>

definition decimal_digit :: "nat \<Rightarrow> char" where
  "decimal_digit d = ''0123456789'' ! d"

function decimal :: "nat \<Rightarrow> string \<Rightarrow> string" where
  "decimal n acc =
     (if n div 10 = 0 then decimal_digit (n mod 10) # acc
      else decimal (n div 10) (decimal_digit (n mod 10) # acc))"
  by pat_completeness auto
termination
  by (relation "measure fst") auto

definition py_str_int :: "int \<Rightarrow> string" where
  "py_str_int i = (if 0 \<le> i then decimal (nat i) [] else CHR ''-'' # decimal (nat (- i)) [])"

text \<open>
  What an f-string puts in place of \<^verbatim>\<open>{v}\<close>, that is \<^verbatim>\<open>str(v)\<close>. For a list or
  a dict this is Python's builtin \<^verbatim>\<open>repr\<close>, which is not code of this module: it is
  the parameter \<open>repr\<close>.
\<close>

fun py_str :: "(json \<Rightarrow> string) \<Rightarrow> json \<Rightarrow> string" where
  "py_str repr (JStr s) = s"
| "py_str repr JNull = ''None''"
| "py_str repr (JBool b) = (if b then ''True'' else ''False'')"
| "py_str repr (JInt i) = py_str_int i"
| "py_str repr v = repr v"

text \<open>\<^verbatim>\<open>f"{os.getenv(name)}"\<close>: an unset variable formats as \<^verbatim>\<open>None\<close>.\<close>

fun format_env :: "string option \<Rightarrow> string" where
  "format_env None = ''None''"
| "format_env (Some s) = s"

text \<open>\<^verbatim>\<open>d.get(key, default)\<close>; only a dict has the method.\<close>

fun py_get :: "json \<Rightarrow> string \<Rightarrow> json \<Rightarrow> error + json" where
  "py_get (JDict kvs) key dflt = (case map_of kvs key of None \<Rightarrow> Inr dflt | Some v \<Rightarrow> Inr v)"
| "py_get _ key dflt = Inl AttributeError"

text \<open>
  \<^verbatim>\<open>records[0]\<close>: the first element of a
  list, the first character of a string, \<^verbatim>\<open>KeyError\<close> on a dict (its keys are
  strings), \<^verbatim>\<open>TypeError\<close> on a number or a boolean.
\<close>

fun py_first :: "json \<Rightarrow> error + json" where
  "py_first (JList (x # xs)) = Inr x"
| "py_first (JList []) = Inl IndexError"
| "py_first (JStr (c # cs)) = Inr (JStr [c])"
| "py_first (JStr []) = Inl IndexError"
| "py_first (JDict kvs) = Inl (KeyError ''0'')"
| "py_first _ = Inl TypeError"

text \<open>\<^verbatim>\<open>for tag in taxonomy\<close>: a dict yields its keys, a string its characters.\<close>

fun py_iter :: "json \<Rightarrow> error + json list" where
  "py_iter (JList xs) = Inr xs"
| "py_iter (JDict kvs) = Inr (map (\<lambda>kv. JStr (fst kv)) kvs)"
| "py_iter (JStr s) = Inr (map (\<lambda>c. JStr [c]) s)"
| "py_iter _ = Inl TypeError"

text \<open>
  Keys of the taxonomy mapping are JSON values. Lists and dicts are unhashable;
  \<^verbatim>\<open>True\<close> and \<^verbatim>\<open>1\<close> (and \<^verbatim>\<open>False\<close> and \<^verbatim>\<open>0\<close>) are the same key, so a key
  is stored and looked up in the normal form \<open>key_norm\<close>.
\<close>

fun hashable :: "json \<Rightarrow> bool" where
  "hashable (JList xs) = False"
| "hashable (JDict kvs) = False"
| "hashable _ = True"

fun key_norm :: "json \<Rightarrow> json" where
  "key_norm (JBool b) = JInt (if b then 1 else 0)"
| "key_norm v = v"

text \<open>\<^verbatim>\<open>job_id.replace("/", "_")\<close>\<close>

definition replace_slash :: "string \<Rightarrow> string" where
  "replace_slash s = map (\<lambda>c. if c = CHR ''/'' then CHR ''_'' else c) s"

section \<open>The remote collaborators\<close>

type_synonym headers = "(string \<times> string) list"

record search_request =
  externalIdType :: string
  externalIdValue :: json
  documentType :: string
  includeUnreleased :: bool
  latestOnly :: bool

record response =
  status_code :: nat
  json_body :: "json option"

text \<open>
  What the module does to the outside, in order: reading a secret, the two kinds of
  HTTP request, and \<^verbatim>\<open>print\<close>.
\<close>

datatype event =
    SecretAccess string
  | HttpGet string headers
  | HttpPost string search_request headers
  | Print string

text \<open>
  The outside world answers each request from the request and from everything that
  happened before it; an answer is a value or the exception the library call raises.
  \<open>json_body = None\<close> is a body that \<^verbatim>\<open>response.json()\<close> cannot decode.
\<close>

record world =
  getenv :: "string \<Rightarrow> string option"
  access_secret_version :: "event list \<Rightarrow> string \<Rightarrow> error + string"
  requests_get :: "event list \<Rightarrow> string \<Rightarrow> headers \<Rightarrow> error + response"
  requests_post :: "event list \<Rightarrow> string \<Rightarrow> search_request \<Rightarrow> headers \<Rightarrow> error + response"
  py_repr :: "json \<Rightarrow> string"

text \<open>\<^verbatim>\<open>response.raise_for_status()\<close> raises for 4xx and 5xx.\<close>

definition raise_for_status :: "response \<Rightarrow> error option" where
  "raise_for_status r =
     (if 400 \<le> status_code r \<and> status_code r < 600 then Some (HTTPError (status_code r))
      else None)"

text \<open>\<^verbatim>\<open>response.raise_for_status(); x = response.json()\<close>\<close>

definition checked_json :: "response \<Rightarrow> error + json" where
  "checked_json r =
     (case raise_for_status r of
        Some e \<Rightarrow> Inl e
      | None \<Rightarrow> (case json_body r of None \<Rightarrow> Inl JSONDecodeError | Some v \<Rightarrow> Inr v))"

section \<open>Secret Resolver: \<^verbatim>\<open>SecretManagerClient\<close>\<close>

text \<open>
  \<^verbatim>\<open>__init__\<close>: \<^verbatim>\<open>self.project_id = project_id or os.getenv("GCP_TARGET_PROJECT")\<close>,
  \<^verbatim>\<open>ValueError\<close> when that is \<^verbatim>\<open>None\<close> or empty. The result is the project id.
  Creating the service client and \<^verbatim>\<open>access_secret_version\<close> are one answer of
  the world.
\<close>

definition SecretManagerClient_init :: "world \<Rightarrow> string option \<Rightarrow> error + string" where
  "SecretManagerClient_init w project_id =
     (let p = (case project_id of
                 None \<Rightarrow> getenv w ''GCP_TARGET_PROJECT''
               | Some s \<Rightarrow> if s \<noteq> [] then Some s else getenv w ''GCP_TARGET_PROJECT'')
      in case p of
           None \<Rightarrow> Inl (ValueError ''GCP_TARGET_PROJECT environment variable must be set'')
         | Some s \<Rightarrow>
             if s = [] then Inl (ValueError ''GCP_TARGET_PROJECT environment variable must be set'')
             else Inr s)"

definition get_secret :: "world \<Rightarrow> string \<Rightarrow> string \<Rightarrow> event list \<Rightarrow> (error + string) \<times> event list" where
  "get_secret w project_id secret_name tr =
     (let secret_path = ''projects/'' @ project_id @ ''/secrets/'' @ secret_name @ ''/versions/latest''
      in (access_secret_version w tr secret_path, tr @ [SecretAccess secret_path]))"

text \<open>\<^verbatim>\<open>api_key or SecretManagerClient().get_secret(name)\<close>\<close>

definition api_key_or_secret ::
  "world \<Rightarrow> string option \<Rightarrow> string \<Rightarrow> event list \<Rightarrow> (error + string) \<times> event list" where
  "api_key_or_secret w api_key secret_name tr =
     (case (case api_key of None \<Rightarrow> None | Some k \<Rightarrow> if k \<noteq> [] then Some k else None) of
        Some k \<Rightarrow> (Inr k, tr)
      | None \<Rightarrow>
          (case SecretManagerClient_init w None of
             Inl e \<Rightarrow> (Inl e, tr)
           | Inr project_id \<Rightarrow> get_secret w project_id secret_name tr))"

section \<open>Taxonomy Resolver: \<^verbatim>\<open>DLCTaxonomyClient\<close>\<close>

type_synonym taxonomy = "(json \<times> json) list"

record dlc_client =
  dlc_api_key :: string
  user_agent :: string
  dlc_headers :: headers
  taxonomy_cache :: "taxonomy option"

text \<open>
  \<^verbatim>\<open>__init__(self, api_key=None, user_agent='Foundations DBT Runner')\<close>; the new
  instance starts with \<^verbatim>\<open>_taxonomy_cache = None\<close>.
\<close>

definition DLCTaxonomyClient_init ::
  "world \<Rightarrow> string option \<Rightarrow> string \<Rightarrow> event list \<Rightarrow> (error + dlc_client) \<times> event list" where
  "DLCTaxonomyClient_init w api_key agent tr =
     (case api_key_or_secret w api_key ''DLC_API_KEY'' tr of
        (Inl e, tr') \<Rightarrow> (Inl e, tr')
      | (Inr k, tr') \<Rightarrow>
          if k = [] then (Inl (ValueError ''DLC_API_KEY secret not found in Secret Manager''), tr')
          else (Inr \<lparr>dlc_api_key = k, user_agent = agent,
                      dlc_headers = [(''Authorization'', ''Bearer '' @ k),
                                     (''User-Agent'', agent),
                                     (''Content-Type'', ''application/json'')],
                      taxonomy_cache = None\<rparr>, tr'))"

text \<open>
  The dict comprehension of \<^verbatim>\<open>fetch_taxonomy_tags\<close>:
  \<^verbatim>\<open>{tag['name']: tag['id'] for tag in taxonomy if tag.get('category') == "PIPELINE_PLATFORM"}\<close>.
  For each tag the condition is evaluated first, then the key, then the value, and the
  key is hashed when the pair is stored.
\<close>

fun platform_tags :: "json list \<Rightarrow> taxonomy \<Rightarrow> error + taxonomy" where
  "platform_tags [] acc = Inr acc"
| "platform_tags (tag # rest) acc =
     (case py_get tag ''category'' JNull of
        Inl e \<Rightarrow> Inl e
      | Inr category \<Rightarrow>
          if category = JStr ''PIPELINE_PLATFORM'' then
            (case tag of
               JDict attrs \<Rightarrow>
                 (case map_of attrs ''name'' of
                    None \<Rightarrow> Inl (KeyError ''name'')
                  | Some name \<Rightarrow>
                      (case map_of attrs ''id'' of
                         None \<Rightarrow> Inl (KeyError ''id'')
                       | Some ident \<Rightarrow>
                           if hashable name
                           then platform_tags rest (AList.update (key_norm name) ident acc)
                           else Inl TypeError))
             | _ \<Rightarrow> Inl AttributeError)
          else platform_tags rest acc)"

definition taxonomy_url :: "world \<Rightarrow> string" where
  "taxonomy_url w = format_env (getenv w ''DLC_BASE_URI'') @ ''/taxonomy''"

definition fetch_taxonomy_tags ::
  "world \<Rightarrow> dlc_client \<Rightarrow> event list \<Rightarrow> (error + taxonomy) \<times> event list" where
  "fetch_taxonomy_tags w c tr =
     (let tr' = tr @ [HttpGet (taxonomy_url w) (dlc_headers c)]
      in case requests_get w tr (taxonomy_url w) (dlc_headers c) of
           Inl e \<Rightarrow> (Inl e, tr')
         | Inr resp \<Rightarrow>
             (case checked_json resp of
                Inl e \<Rightarrow> (Inl e, tr')
              | Inr taxonomy \<Rightarrow>
                  (case py_iter taxonomy of
                     Inl e \<Rightarrow> (Inl e, tr')
                   | Inr tags \<Rightarrow> (platform_tags tags [], tr'))))"

text \<open>
  \<^verbatim>\<open>self._taxonomy_cache.get(platform_tag)\<close> and the test \<^verbatim>\<open>is None\<close> after it: a
  tag that is absent and a tag whose id is \<^verbatim>\<open>null\<close> both raise.
\<close>

definition lookup_tag :: "world \<Rightarrow> taxonomy \<Rightarrow> json \<Rightarrow> error + json" where
  "lookup_tag w cache platform_tag =
     (let not_found = ValueError (''No taxonomyTagId found for platformTag '' @ [CHR 0x27]
                                    @ py_str (py_repr w) platform_tag @ [CHR 0x27])
      in if \<not> hashable platform_tag then Inl TypeError
         else (case map_of cache (key_norm platform_tag) of
                 None \<Rightarrow> Inl not_found
               | Some JNull \<Rightarrow> Inl not_found
               | Some taxonomy_tag_id \<Rightarrow> Inr taxonomy_tag_id))"

text \<open>
  \<^verbatim>\<open>get_taxonomy_tag_id\<close> changes the instance, so it returns the instance too, also
  when it raises: a fetch that raises leaves \<^verbatim>\<open>_taxonomy_cache\<close> as it was, a lookup
  that raises comes after the cache has been stored.
\<close>

definition get_taxonomy_tag_id ::
  "world \<Rightarrow> dlc_client \<Rightarrow> json \<Rightarrow> event list \<Rightarrow> (error + json) \<times> dlc_client \<times> event list" where
  "get_taxonomy_tag_id w c platform_tag tr =
     (case taxonomy_cache c of
        Some cache \<Rightarrow> (lookup_tag w cache platform_tag, c, tr)
      | None \<Rightarrow>
          (case fetch_taxonomy_tags w c tr of
             (Inl e, tr') \<Rightarrow> (Inl e, c, tr')
           | (Inr cache, tr') \<Rightarrow>
               (lookup_tag w cache platform_tag, c\<lparr>taxonomy_cache := Some cache\<rparr>, tr')))"

text \<open>
  A caller that looks up one tag after the other on the same instance, going on after
  an exception.
\<close>

fun get_taxonomy_tag_ids ::
  "world \<Rightarrow> dlc_client \<Rightarrow> json list \<Rightarrow> event list \<Rightarrow> dlc_client \<times> event list" where
  "get_taxonomy_tag_ids w c [] tr = (c, tr)"
| "get_taxonomy_tag_ids w c (platform_tag # rest) tr =
     (case get_taxonomy_tag_id w c platform_tag tr of
        (r, c', tr') \<Rightarrow> get_taxonomy_tag_ids w c' rest tr')"

fun is_taxonomy_call :: "event \<Rightarrow> bool" where
  "is_taxonomy_call (HttpGet url h) = True"
| "is_taxonomy_call _ = False"

fun is_document_call :: "event \<Rightarrow> bool" where
  "is_document_call (HttpPost url req h) = True"
| "is_document_call _ = False"

definition taxonomy_calls :: "event list \<Rightarrow> nat" where
  "taxonomy_calls tr = length (filter is_taxonomy_call tr)"

definition http_calls :: "event list \<Rightarrow> event list" where
  "http_calls tr = filter (\<lambda>e. is_taxonomy_call e \<or> is_document_call e) tr"

section \<open>Job Resolver: \<^verbatim>\<open>DMSClient\<close>\<close>

record dms_client =
  is_prod :: bool
  dms_api_key :: string
  dms_headers :: headers

definition DMSClient_init ::
  "world \<Rightarrow> string option \<Rightarrow> event list \<Rightarrow> (error + dms_client) \<times> event list" where
  "DMSClient_init w api_key tr =
     (case api_key_or_secret w api_key ''DMS_API_KEY'' tr of
        (Inl e, tr') \<Rightarrow> (Inl e, tr')
      | (Inr k, tr') \<Rightarrow>
          if k = [] then (Inl (ValueError ''DMS_API_KEY secret not found in Secret Manager''), tr')
          else (Inr \<lparr>is_prod = (getenv w ''GCP_TARGET_PROJECT'' = Some ''foundations-prd-1sm9''),
                      dms_api_key = k,
                      dms_headers = [(''api-key'', k), (''Content-Type'', ''application/json'')]\<rparr>,
                tr'))"

definition documents_url :: "world \<Rightarrow> string" where
  "documents_url w = format_env (getenv w ''DMS_BASE_URI'') @ ''/documents/get?keyed=true&json=true''"

text \<open>
  The body shared by \<^verbatim>\<open>_fetch_job_config\<close> and \<^verbatim>\<open>_fetch_shared_platform_config\<close>:
  post the search, \<^verbatim>\<open>raise_for_status\<close>, decode, raise \<open>not_found\<close> when
  \<^verbatim>\<open>not records\<close>, and return \<^verbatim>\<open>records[0].get('json', {})\<close>.
\<close>

definition search_documents ::
  "world \<Rightarrow> dms_client \<Rightarrow> search_request \<Rightarrow> error \<Rightarrow> event list \<Rightarrow> (error + json) \<times> event list" where
  "search_documents w c search not_found tr =
     (let tr' = tr @ [HttpPost (documents_url w) search (dms_headers c)]
      in case requests_post w tr (documents_url w) search (dms_headers c) of
           Inl e \<Rightarrow> (Inl e, tr')
         | Inr resp \<Rightarrow>
             (case checked_json resp of
                Inl e \<Rightarrow> (Inl e, tr')
              | Inr records \<Rightarrow>
                  if \<not> truthy records then (Inl not_found, tr')
                  else (case py_first records of
                          Inl e \<Rightarrow> (Inl e, tr')
                        | Inr record0 \<Rightarrow> (py_get record0 ''json'' (JDict []), tr'))))"

definition job_search :: "string \<Rightarrow> bool \<Rightarrow> search_request" where
  "job_search job_id in_prod =
     \<lparr>externalIdType = ''JobId'', externalIdValue = JStr job_id,
      documentType = ''PipelineJob'', includeUnreleased = (\<not> in_prod), latestOnly = True\<rparr>"

definition shared_search :: "json \<Rightarrow> bool \<Rightarrow> search_request" where
  "shared_search taxonomy_tag_id in_prod =
     \<lparr>externalIdType = ''PipelinePlatformId'', externalIdValue = taxonomy_tag_id,
      documentType = ''SharedPipelineJob'', includeUnreleased = (\<not> in_prod), latestOnly = True\<rparr>"

definition job_not_found :: "string \<Rightarrow> error" where
  "job_not_found job_id = ValueError (''No job config found for jobId '' @ job_id)"

definition shared_not_found :: "world \<Rightarrow> json \<Rightarrow> error" where
  "shared_not_found w taxonomy_tag_id =
     ValueError (''No shared config found for taxonomyTagId '' @ py_str (py_repr w) taxonomy_tag_id)"

definition fetch_job_config ::
  "world \<Rightarrow> dms_client \<Rightarrow> string \<Rightarrow> bool \<Rightarrow> event list \<Rightarrow> (error + json) \<times> event list" where
  "fetch_job_config w c job_id in_prod tr =
     search_documents w c (job_search job_id in_prod) (job_not_found job_id) tr"

definition fetch_shared_platform_config ::
  "world \<Rightarrow> dms_client \<Rightarrow> json \<Rightarrow> bool \<Rightarrow> event list \<Rightarrow> (error + json) \<times> event list" where
  "fetch_shared_platform_config w c taxonomy_tag_id in_prod tr =
     search_documents w c (shared_search taxonomy_tag_id in_prod)
       (shared_not_found w taxonomy_tag_id) tr"

text \<open>
  \<^verbatim>\<open>_deep_merge_with_priority\<close> as \<^verbatim>\<open>_fetch_model_by_job_id\<close> calls it, on whatever
  the two documents are. \<^verbatim>\<open>base.copy()\<close> exists on a dict and on a list;
  \<^verbatim>\<open>override.items()\<close> only on a dict; a list copy takes no string key, so the first
  iteration of the loop raises \<^verbatim>\<open>TypeError\<close>.
\<close>

fun deep_merge_with_priority :: "json \<Rightarrow> json \<Rightarrow> error + json" where
  "deep_merge_with_priority (JDict base) (JDict override) = Inr (JDict (deep_merge base override))"
| "deep_merge_with_priority (JList xs) (JDict override) =
     (if override = [] then Inr (JList xs) else Inl TypeError)"
| "deep_merge_with_priority _ _ = Inl AttributeError"

definition no_platform_tag_warning :: "string \<Rightarrow> string" where
  "no_platform_tag_warning job_id =
     ''Warning: No platformTag found in job config for jobId '' @ job_id @ ''. Using job config only.''"

definition no_table_name :: "string \<Rightarrow> error" where
  \<open>no_table_name job_id =
     ValueError (''No 'foundations-table-name' found in config for jobId '' @ job_id)\<close>

text \<open>
  Steps 1 to 3 of \<^verbatim>\<open>_fetch_model_by_job_id\<close>: the config from which the table name is
  read. The taxonomy client is created inside the call, with no arguments.
\<close>

definition resolve_config ::
  "world \<Rightarrow> dms_client \<Rightarrow> string \<Rightarrow> bool \<Rightarrow> event list \<Rightarrow> (error + json) \<times> event list" where
  "resolve_config w c job_id in_prod tr =
     (case fetch_job_config w c job_id in_prod tr of
        (Inl e, tr1) \<Rightarrow> (Inl e, tr1)
      | (Inr job_config, tr1) \<Rightarrow>
          (case py_get job_config ''platformTag'' JNull of
             Inl e \<Rightarrow> (Inl e, tr1)
           | Inr platform_tag \<Rightarrow>
               if \<not> truthy platform_tag
               then (Inr job_config, tr1 @ [Print (no_platform_tag_warning job_id)])
               else
                 (case DLCTaxonomyClient_init w None ''Foundations DBT Runner'' tr1 of
                    (Inl e, tr2) \<Rightarrow> (Inl e, tr2)
                  | (Inr dlc, tr2) \<Rightarrow>
                      (case get_taxonomy_tag_id w dlc platform_tag tr2 of
                         (Inl e, dlc', tr3) \<Rightarrow> (Inl e, tr3)
                       | (Inr taxonomy_tag_id, dlc', tr3) \<Rightarrow>
                           (case fetch_shared_platform_config w c taxonomy_tag_id in_prod tr3 of
                              (Inl e, tr4) \<Rightarrow> (Inl e, tr4)
                            | (Inr shared_config, tr4) \<Rightarrow>
                                (deep_merge_with_priority shared_config job_config, tr4))))))"

definition fetch_model_by_job_id ::
  "world \<Rightarrow> dms_client \<Rightarrow> string \<Rightarrow> bool \<Rightarrow> event list \<Rightarrow> (error + json) \<times> event list" where
  "fetch_model_by_job_id w c job_id in_prod tr =
     (case resolve_config w c job_id in_prod tr of
        (Inl e, tr') \<Rightarrow> (Inl e, tr')
      | (Inr merged_config, tr') \<Rightarrow>
          (case py_get merged_config ''foundations-table-name'' JNull of
             Inl e \<Rightarrow> (Inl e, tr')
           | Inr model \<Rightarrow>
               if \<not> truthy model then (Inl (no_table_name job_id), tr')
               else (Inr model, tr')))"

definition invocation :: "string \<Rightarrow> string \<Rightarrow> string \<Rightarrow> string" where
  \<open>invocation model_name pool_name job_id =
     ''+'' @ model_name @ '' --vars '{"pool_name": "'' @ pool_name
       @ ''", "scala_job_id": "'' @ job_id @ ''"}'' @ [CHR 0x27]\<close>

definition fetch_model_and_pool_name ::
  "world \<Rightarrow> dms_client \<Rightarrow> string \<Rightarrow> event list \<Rightarrow> (error + string) \<times> event list" where
  "fetch_model_and_pool_name w c job_id tr =
     (case fetch_model_by_job_id w c job_id (is_prod c) tr of
        (Inl e, tr') \<Rightarrow> (Inl e, tr')
      | (Inr model_name, tr') \<Rightarrow>
          (Inr (invocation (py_str (py_repr w) model_name) (replace_slash job_id) job_id), tr'))"

text \<open>A caller that resolves one job after the other on the same client.\<close>

fun resolve_all ::
  "world \<Rightarrow> dms_client \<Rightarrow> string list \<Rightarrow> event list \<Rightarrow> event list" where
  "resolve_all w c [] tr = tr"
| "resolve_all w c (job_id # rest) tr =
     resolve_all w c rest (snd (fetch_model_and_pool_name w c job_id tr))"

section \<open>A world with fixed answers\<close>

text \<open>
  A development deployment in which the secret store holds a key, the document store
  answers every \<^verbatim>\<open>PipelineJob\<close> search with \<open>job_response\<close> and every other search with
  \<open>shared_response\<close>, and the taxonomy service answers with \<open>taxonomy_response\<close>.
\<close>

definition fixed_world :: "response \<Rightarrow> response \<Rightarrow> response \<Rightarrow> world" where
  "fixed_world job_response taxonomy_response shared_response =
     \<lparr>getenv = (\<lambda>name. if name = ''GCP_TARGET_PROJECT'' then Some ''foundations-dev''
                        else if name = ''DLC_BASE_URI'' then Some ''https://dlc''
                        else if name = ''DMS_BASE_URI'' then Some ''https://dms''
                        else None),
      access_secret_version = (\<lambda>tr secret_path. Inr ''k3y''),
      requests_get = (\<lambda>tr url h. Inr taxonomy_response),
      requests_post = (\<lambda>tr url search h.
         Inr (if documentType search = ''PipelineJob'' then job_response else shared_response)),
      py_repr = (\<lambda>v. ''...'')\<rparr>"

definition ok :: "json \<Rightarrow> response" where
  "ok v = \<lparr>status_code = 200, json_body = Some v\<rparr>"

definition dev_client :: dms_client where
  "dev_client = \<lparr>is_prod = False, dms_api_key = ''k3y'',
                  dms_headers = [(''api-key'', ''k3y''), (''Content-Type'', ''application/json'')]\<rparr>"

text \<open>The two scenarios of the specification: a job without a platform tag, and the
  \<^verbatim>\<open>spark\<close> job with its shared configuration.\<close>

definition job_only_world :: "dict \<Rightarrow> world" where
  "job_only_world job_config =
     fixed_world (ok (JList [JDict [(''json'', JDict job_config)]])) (ok (JList [])) (ok (JList []))"

definition spark_world :: world where
  "spark_world =
     fixed_world
       (ok (JList [JDict [(''json'', JDict [(''platformTag'', JStr ''spark''),
                                            (''foundations-table-name'', JStr ''jobs.spark_x'')])]]))
       (ok (JList [JDict [(''name'', JStr ''spark''), (''id'', JInt 7),
                          (''category'', JStr ''PIPELINE_PLATFORM'')]]))
       (ok (JList [JDict [(''json'', JDict [(''foundations-table-name'', JStr ''shared.default''),
                                            (''retries'', JInt 3)])]]))"

text \<open>
  The HTTP requests of one resolution of \<open>job_id\<close>: the search for the job alone; or, when
  the resolution fails after it, that search and a taxonomy request; or the search for
  the job, a taxonomy request and the search for the shared config.
\<close>

definition call_shape :: "world \<Rightarrow> dms_client \<Rightarrow> string \<Rightarrow> bool \<Rightarrow> bool \<Rightarrow> event list \<Rightarrow> bool" where
  "call_shape w c job_id p success calls \<longleftrightarrow>
     calls = [HttpPost (documents_url w) (job_search job_id p) (dms_headers c)]
     \<or> (\<not> success \<and> (\<exists>h. calls = [HttpPost (documents_url w) (job_search job_id p) (dms_headers c),
                                      HttpGet (taxonomy_url w) h]))
     \<or> (\<exists>h taxonomy_tag_id.
           calls = [HttpPost (documents_url w) (job_search job_id p) (dms_headers c),
                    HttpGet (taxonomy_url w) h,
                    HttpPost (documents_url w) (shared_search taxonomy_tag_id p) (dms_headers c)])"

text \<open>A taxonomy service that is down, and a taxonomy client as \<^verbatim>\<open>__init__\<close> leaves it.\<close>

definition unavailable :: response where
  "unavailable = \<lparr>status_code = 503, json_body = None\<rparr>"

definition taxonomy_down_world :: world where
  "taxonomy_down_world = fixed_world (ok (JList [])) unavailable (ok (JList []))"

definition new_dlc_client :: dlc_client where
  "new_dlc_client =
     \<lparr>dlc_api_key = ''k3y'', user_agent = ''Foundations DBT Runner'',
      dlc_headers = [(''Authorization'', ''Bearer k3y''),
                     (''User-Agent'', ''Foundations DBT Runner''),
                     (''Content-Type'', ''application/json'')],
      taxonomy_cache = None\<rparr>"

text \<open>A document store without the job, and the \<^verbatim>\<open>spark\<close> job with any answer to the
  search for its shared config.\<close>

definition no_job_world :: world where
  "no_job_world = fixed_world (ok (JList [])) (ok (JList [])) (ok (JList []))"

definition spark_world_with_shared :: "json \<Rightarrow> world" where
  "spark_world_with_shared shared_records =
     fixed_world
       (ok (JList [JDict [(''json'', JDict [(''platformTag'', JStr ''spark''),
                                            (''foundations-table-name'', JStr ''jobs.spark_x'')])]]))
       (ok (JList [JDict [(''name'', JStr ''spark''), (''id'', JInt 7),
                          (''category'', JStr ''PIPELINE_PLATFORM'')]]))
       (ok shared_records)"

text \<open>A deployment without the project variable, and a secret store whose secrets are empty.\<close>

definition unconfigured_world :: world where
  "unconfigured_world = no_job_world\<lparr>getenv := (\<lambda>name. None)\<rparr>"

definition empty_secret_world :: world where
  "empty_secret_world = no_job_world\<lparr>access_secret_version := (\<lambda>tr secret_path. Inr [])\<rparr>"

section \<open>The Config Merger on a heap of dict objects\<close>

text \<open>
  Whether \<^verbatim>\<open>_deep_merge_with_priority\<close> changes its arguments depends on which dict
  objects it writes to, so here a dict is an object in a store and a value that is a
  dict is a reference to it. The store is the list of the dict objects allocated so
  far: an address is an index, and a new object is appended. Lists are never written
  to or looked into by the merge and stay values.
\<close>

datatype hval =
    HNull
  | HBool bool
  | HInt int
  | HStr string
  | HList "hval list"
  | HRef nat

type_synonym hdict = "(string \<times> hval) list"
type_synonym heap = "hdict list"

text \<open>\<^verbatim>\<open>d[key] = v\<close> on the object at address \<open>a\<close>.\<close>

definition store :: "heap \<Rightarrow> nat \<Rightarrow> string \<Rightarrow> hval \<Rightarrow> heap" where
  "store h a key v = h[a := AList.update key v (h ! a)]"

text \<open>
  The test \<^verbatim>\<open>key in merged and isinstance(merged[key], dict) and
  isinstance(override_value, dict)\<close>: the addresses of the two dicts when it holds.
\<close>

definition both_dicts :: "hdict \<Rightarrow> string \<Rightarrow> hval \<Rightarrow> (nat \<times> nat) option" where
  "both_dicts merged_dict key override_value =
     (case (map_of merged_dict key, override_value) of
        (Some (HRef b), HRef ov) \<Rightarrow> Some (b, ov)
      | _ \<Rightarrow> None)"

text \<open>
  \<open>deep_merge_heap\<close> is the call: \<^verbatim>\<open>merged = base.copy()\<close> appends a copy of the object
  at \<open>base\<close>, whose address is \<open>length h\<close>, and \<open>merge_items\<close> is the loop over
  \<^verbatim>\<open>override.items()\<close>, which writes to the object at \<open>merged\<close> only. The recursion
  follows references, so it is bounded by a depth \<open>n\<close>; \<open>None\<close> is a depth that does not
  suffice or an argument that is not an address of the store.
\<close>

fun deep_merge_heap :: "nat \<Rightarrow> heap \<Rightarrow> nat \<Rightarrow> nat \<Rightarrow> (nat \<times> heap) option"
and merge_items :: "nat \<Rightarrow> heap \<Rightarrow> nat \<Rightarrow> hdict \<Rightarrow> heap option" where
  "deep_merge_heap 0 h base override = None"
| "deep_merge_heap (Suc n) h base override =
     (if base < length h \<and> override < length h then
        (case merge_items n (h @ [h ! base]) (length h) (h ! override) of
           None \<Rightarrow> None
         | Some h' \<Rightarrow> Some (length h, h'))
      else None)"
| "merge_items n h merged [] = Some h"
| "merge_items n h merged ((key, override_value) # items) =
     (case both_dicts (h ! merged) key override_value of
        Some (b, ov) \<Rightarrow>
          (case deep_merge_heap n h b ov of
             None \<Rightarrow> None
           | Some (r, h') \<Rightarrow> merge_items n (store h' merged key (HRef r)) merged items)
      | None \<Rightarrow> merge_items n (store h merged key override_value) merged items)"

text \<open>
  A store is closed when every reference in it is an address of it, and layered when
  every dict refers only to dicts allocated before it, as the dicts of a decoded JSON
  document do. \<open>json_of\<close> reads the JSON value that a heap value denotes, down to depth
  \<open>d\<close>.
\<close>

definition closed_heap :: "heap \<Rightarrow> bool" where
  "closed_heap h = (\<forall>d \<in> set h. \<forall>kv \<in> set d. \<forall>b. snd kv = HRef b \<longrightarrow> b < length h)"

definition layered_heap :: "heap \<Rightarrow> bool" where
  "layered_heap h = (\<forall>a < length h. \<forall>kv \<in> set (h ! a). \<forall>b. snd kv = HRef b \<longrightarrow> b < a)"

definition heap_extends :: "heap \<Rightarrow> heap \<Rightarrow> bool" where
  "heap_extends h0 h = (length h0 \<le> length h \<and> (\<forall>a < length h0. h ! a = h0 ! a))"

fun json_of :: "nat \<Rightarrow> heap \<Rightarrow> hval \<Rightarrow> json option" where
  "json_of d h HNull = Some JNull"
| "json_of d h (HBool b) = Some (JBool b)"
| "json_of d h (HInt i) = Some (JInt i)"
| "json_of d h (HStr s) = Some (JStr s)"
| "json_of d h (HList xs) = map_option JList (those (map (json_of d h) xs))"
| "json_of 0 h (HRef a) = None"
| "json_of (Suc d) h (HRef a) =
     (if a < length h
      then map_option JDict
             (those (map (\<lambda>kv. map_option (Pair (fst kv)) (json_of d h (snd kv))) (h ! a)))
      else None)"

text \<open>A store with two nested configs, at addresses 2 and 3, and the store after merging them.\<close>

definition example_heap :: heap where
  "example_heap =
     [[(''retries'', HInt 3), (''hosts'', HList [HStr ''a''])],
      [(''retries'', HInt 5)],
      [(''opts'', HRef 0), (''name'', HStr ''shared'')],
      [(''opts'', HRef 1), (''tags'', HList [HInt 1])]]"

definition merged_example_heap :: heap where
  "merged_example_heap =
     [[(''retries'', HInt 3), (''hosts'', HList [HStr ''a''])],
      [(''retries'', HInt 5)],
      [(''opts'', HRef 0), (''name'', HStr ''shared'')],
      [(''opts'', HRef 1), (''tags'', HList [HInt 1])],
      [(''opts'', HRef 5), (''name'', HStr ''shared''), (''tags'', HList [HInt 1])],
      [(''retries'', HInt 5), (''hosts'', HList [HStr ''a''])]]"

section \<open>Properties of the Config Merger\<close>

lemma deep_merge_step:
  "deep_merge merged ((key, v) # items) =
     deep_merge (AList.update key (merged_entry merged key v) merged) items"
  by (simp add: merged_entry_def split: option.splits json.splits)

lemma deep_merge_untouched:
  "k \<notin> fst ` set items \<Longrightarrow> map_of (deep_merge merged items) k = map_of merged k"
proof (induction items arbitrary: merged)
  case Nil
  then show ?case by simp
next
  case (Cons kv items)
  obtain key v where kv: "kv = (key, v)" by (cases kv)
  from Cons.prems kv have "k \<noteq> key" and "k \<notin> fst ` set items" by auto
  then show ?case
    unfolding kv deep_merge_step by (simp add: Cons.IH update_conv')
qed

lemma deep_merge_lookup:
  "distinct (map fst items) \<Longrightarrow>
   map_of (deep_merge merged items) k =
     (case map_of items k of
        None \<Rightarrow> map_of merged k
      | Some v \<Rightarrow> Some (merged_entry merged k v))"
proof (induction items arbitrary: merged)
  case Nil
  then show ?case by simp
next
  case (Cons kv items)
  obtain key v where kv: "kv = (key, v)" by (cases kv)
  from Cons.prems kv have fresh: "key \<notin> fst ` set items" and d: "distinct (map fst items)"
    by auto
  show ?case
  proof (cases "k = key")
    case True
    with fresh show ?thesis
      unfolding kv deep_merge_step by (simp add: deep_merge_untouched update_conv')
  next
    case False
    then have "merged_entry (AList.update key (merged_entry merged key v) merged) k
                 = merged_entry merged k"
      by (simp add: merged_entry_def fun_eq_iff update_conv')
    with False show ?thesis
      unfolding kv deep_merge_step
      by (simp add: Cons.IH [OF d] update_conv' split: option.splits)
  qed
qed

lemma update_same: "map_of al k = Some v \<Longrightarrow> AList.update k v al = al"
  by (induction al) auto

lemma deep_merge_self_aux:
  "distinct (map fst merged) \<Longrightarrow> set items \<subseteq> set merged \<Longrightarrow>
   list_all (\<lambda>kv. wf_json (snd kv)) items \<Longrightarrow> deep_merge merged items = merged"
proof (induction "size_list (size_prod (\<lambda>_. 0) size) items" arbitrary: merged items
    rule: less_induct)
  case less
  show ?case
  proof (cases items)
    case Nil
    then show ?thesis by simp
  next
    case (Cons kv rest)
    obtain key v where kv: "kv = (key, v)" by (cases kv)
    from less.prems Cons kv have look: "map_of merged key = Some v"
      by simp
    have entry: "merged_entry merged key v = v"
    proof (cases v)
      case (JDict ov)
      from less.prems Cons kv JDict
      have wf: "distinct (map fst ov)" "list_all (\<lambda>kv. wf_json (snd kv)) ov"
        by simp_all
      have "size_list (size_prod (\<lambda>_. 0) size) ov < size_list (size_prod (\<lambda>_. 0) size) items"
        using Cons kv JDict by simp
      then have "deep_merge ov ov = ov"
        using wf by (intro less.hyps) simp_all
      with look JDict show ?thesis by (simp add: merged_entry_def)
    qed (simp_all add: merged_entry_def look)
    have upd: "AList.update key v merged = merged"
      using look by (rule update_same)
    have "size_list (size_prod (\<lambda>_. 0) size) rest < size_list (size_prod (\<lambda>_. 0) size) items"
      using Cons by simp
    then have "deep_merge merged rest = merged"
      using less.prems Cons by (intro less.hyps) simp_all
    then show ?thesis
      unfolding Cons kv deep_merge_step entry upd .
  qed
qed

text \<open>
  Claim C1. For dicts \<open>base\<close> and \<open>override\<close> (the keys of a dict are distinct), the
  merge \<open>m\<close> has, under every key \<open>k\<close> of \<open>override\<close>: the merge of \<open>base[k]\<close> and
  \<open>override[k]\<close> when \<open>k\<close> is in \<open>base\<close> and both values are dicts, and \<open>override[k]\<close>
  itself otherwise (a list, a scalar or a type mismatch replaces the base value whole);
  under a key of \<open>base\<close> that \<open>override\<close> does not have, \<open>m[k]\<close> is \<open>base[k]\<close>; and \<open>m\<close>
  has no other key.
\<close>

theorem deep_merge_per_key:
  assumes "distinct (map fst override)"
  shows "map_of (deep_merge base override) k =
     (case map_of override k of
        None \<Rightarrow> map_of base k
      | Some override_value \<Rightarrow>
          (case (map_of base k, override_value) of
             (Some (JDict b), JDict ov) \<Rightarrow> Some (JDict (deep_merge b ov))
           | _ \<Rightarrow> Some override_value))"
  using deep_merge_lookup [OF assms, of base k]
  by (simp add: merged_entry_def split: option.splits json.splits)

theorem deep_merge_per_key_witness:
  "distinct (map fst [(''opts'', JDict [(''b'', JInt 2)]), (''tags'', JList [JInt 9])]) \<and>
   map_of (deep_merge
             [(''opts'', JDict [(''a'', JInt 1)]), (''tags'', JList [JInt 1, JInt 2]), (''keep'', JNull)]
             [(''opts'', JDict [(''b'', JInt 2)]), (''tags'', JList [JInt 9])]) ''opts''
     = Some (JDict [(''a'', JInt 1), (''b'', JInt 2)])"
  using deep_merge_per_key
          [of "[(''opts'', JDict [(''b'', JInt 2)]), (''tags'', JList [JInt 9])]"
              "[(''opts'', JDict [(''a'', JInt 1)]), (''tags'', JList [JInt 1, JInt 2]), (''keep'', JNull)]"
              "''opts''"]
  by simp

text \<open>
  Claim C6. Merging a dict with itself gives the dict back: \<open>deep_merge x x = x\<close>, for
  every dict \<open>x\<close> whose keys are distinct at every level. The two sides are the same
  association list, so they are equal by value, with the keys in the same order.
\<close>

theorem deep_merge_idempotent:
  assumes "wf_json (JDict x)"
  shows "deep_merge x x = x"
  using assms by (intro deep_merge_self_aux) simp_all

theorem deep_merge_idempotent_witness:
  "wf_json (JDict [(''a'', JDict [(''b'', JList [JInt 1]), (''c'', JDict [])]), (''d'', JStr ''x'')]) \<and>
   deep_merge [(''a'', JDict [(''b'', JList [JInt 1]), (''c'', JDict [])]), (''d'', JStr ''x'')]
              [(''a'', JDict [(''b'', JList [JInt 1]), (''c'', JDict [])]), (''d'', JStr ''x'')]
     = [(''a'', JDict [(''b'', JList [JInt 1]), (''c'', JDict [])]), (''d'', JStr ''x'')]"
  using deep_merge_idempotent
          [of "[(''a'', JDict [(''b'', JList [JInt 1]), (''c'', JDict [])]), (''d'', JStr ''x'')]"]
  by simp

section \<open>Properties of the Job Resolver\<close>

text \<open>The definitions that a run in a fixed world unfolds.\<close>

lemmas run_defs = fetch_model_and_pool_name_def fetch_model_by_job_id_def resolve_config_def
  fetch_job_config_def fetch_shared_platform_config_def search_documents_def checked_json_def
  raise_for_status_def fixed_world_def ok_def dev_client_def job_search_def shared_search_def
  documents_url_def taxonomy_url_def DLCTaxonomyClient_init_def api_key_or_secret_def
  SecretManagerClient_init_def get_secret_def get_taxonomy_tag_id_def fetch_taxonomy_tags_def
  lookup_tag_def job_not_found_def shared_not_found_def no_table_name_def
  no_platform_tag_warning_def job_only_world_def spark_world_def

lemma py_get_Inr: "py_get v key dflt = Inr x \<Longrightarrow> \<exists>d. v = JDict d"
  by (cases v) simp_all

lemma deep_merge_with_priority_dict:
  "deep_merge_with_priority shared (JDict job) = Inr cfg \<Longrightarrow> job \<noteq> [] \<Longrightarrow> \<exists>d. cfg = JDict d"
  by (cases shared) (auto split: if_splits)

lemma resolve_config_is_dict:
  assumes "resolve_config w c job_id p tr = (Inr cfg, tr')"
  shows "\<exists>d. cfg = JDict d"
proof -
  obtain r1 tr1 where f: "fetch_job_config w c job_id p tr = (r1, tr1)"
    by (cases "fetch_job_config w c job_id p tr")
  show ?thesis
  proof (cases r1)
    case (Inl e)
    with assms f show ?thesis by (simp add: resolve_config_def)
  next
    case (Inr job_config)
    show ?thesis
    proof (cases "py_get job_config ''platformTag'' JNull")
      case (Inl e)
      with assms f Inr show ?thesis by (simp add: resolve_config_def)
    next
      case tag: (Inr platform_tag)
      then obtain job where job: "job_config = JDict job"
        using py_get_Inr by blast
      show ?thesis
      proof (cases "truthy platform_tag")
        case False
        with assms f Inr tag job show ?thesis by (auto simp: resolve_config_def)
      next
        case True
        with tag job have "job \<noteq> []"
          by (auto split: option.splits)
        with assms f Inr tag job True show ?thesis
          by (auto simp: resolve_config_def split: prod.splits sum.splits
                dest: deep_merge_with_priority_dict)
      qed
    qed
  qed
qed

lemma search_documents_trace:
  "search_documents w c search nf tr = (r, tr') \<Longrightarrow>
   tr' = tr @ [HttpPost (documents_url w) search (dms_headers c)]"
  by (auto simp: search_documents_def Let_def split: sum.splits if_splits)

lemma replace_slash_nth:
  "i < length s \<Longrightarrow> replace_slash s ! i = (if s ! i = CHR ''/'' then CHR ''_'' else s ! i)"
  by (simp add: replace_slash_def)

text \<open>
  Claim C8. Whatever config steps 1 to 3 resolve (the job config alone, or the merge),
  it is a dict; when \<^verbatim>\<open>foundations-table-name\<close> is absent from it or its value is falsy,
  model resolution raises the \<^verbatim>\<open>ValueError\<close> "No 'foundations-table-name' found in
  config for jobId ..." (the validation error of the specification), and otherwise the
  model is that value.
\<close>

theorem table_name_extraction:
  assumes "resolve_config w c job_id p tr = (Inr merged_config, tr')"
  shows \<open>\<exists>d. merged_config = JDict d \<and>
           fetch_model_by_job_id w c job_id p tr =
             (case map_of d ''foundations-table-name'' of
                None \<Rightarrow> (Inl (ValueError (''No 'foundations-table-name' found in config for jobId '' @ job_id)), tr')
              | Some model \<Rightarrow>
                  if truthy model then (Inr model, tr')
                  else (Inl (ValueError (''No 'foundations-table-name' found in config for jobId '' @ job_id)), tr'))\<close>
proof -
  from resolve_config_is_dict [OF assms] obtain d where d: "merged_config = JDict d" ..
  with assms show ?thesis
    by (simp add: fetch_model_by_job_id_def no_table_name_def split: option.splits)
qed


theorem table_name_extraction_witness:
  "resolve_config spark_world dev_client ''job1'' False [] =
     (Inr (JDict [(''foundations-table-name'', JStr ''jobs.spark_x''), (''retries'', JInt 3),
                  (''platformTag'', JStr ''spark'')]),
      [HttpPost ''https://dms/documents/get?keyed=true&json=true'' (job_search ''job1'' False)
         (dms_headers dev_client),
       SecretAccess ''projects/foundations-dev/secrets/DLC_API_KEY/versions/latest'',
       HttpGet ''https://dlc/taxonomy''
         [(''Authorization'', ''Bearer k3y''), (''User-Agent'', ''Foundations DBT Runner''),
          (''Content-Type'', ''application/json'')],
       HttpPost ''https://dms/documents/get?keyed=true&json=true'' (shared_search (JInt 7) False)
         (dms_headers dev_client)])
   \<and> fst (fetch_model_by_job_id spark_world dev_client ''job1'' False []) = Inr (JStr ''jobs.spark_x'')"
proof -
  have h: "resolve_config spark_world dev_client ''job1'' False [] =
     (Inr (JDict [(''foundations-table-name'', JStr ''jobs.spark_x''), (''retries'', JInt 3),
                  (''platformTag'', JStr ''spark'')]),
      [HttpPost ''https://dms/documents/get?keyed=true&json=true'' (job_search ''job1'' False)
         (dms_headers dev_client),
       SecretAccess ''projects/foundations-dev/secrets/DLC_API_KEY/versions/latest'',
       HttpGet ''https://dlc/taxonomy''
         [(''Authorization'', ''Bearer k3y''), (''User-Agent'', ''Foundations DBT Runner''),
          (''Content-Type'', ''application/json'')],
       HttpPost ''https://dms/documents/get?keyed=true&json=true'' (shared_search (JInt 7) False)
         (dms_headers dev_client)])"
    by (simp add: run_defs)
  show ?thesis
    using table_name_extraction [OF h] h by auto
qed

text \<open>
  Claim C3. When the job config has no \<^verbatim>\<open>platformTag\<close> or a falsy one, model resolution
  goes on with the job config alone: the run consists of the one document-store search
  for the job and the printed warning, so no taxonomy call and no second document-store
  call is made, and the result is the table name read from the job config (or the
  validation error when the job config has none).
\<close>

theorem missing_platform_tag_uses_job_config:
  assumes "fetch_job_config w c job_id p tr = (Inr (JDict job_config), tr1)"
      and "\<forall>t. map_of job_config ''platformTag'' = Some t \<longrightarrow> \<not> truthy t"
  shows \<open>fetch_model_by_job_id w c job_id p tr =
           ((case map_of job_config ''foundations-table-name'' of
               None \<Rightarrow> Inl (no_table_name job_id)
             | Some model \<Rightarrow> if truthy model then Inr model else Inl (no_table_name job_id)),
            tr @ [HttpPost (documents_url w) (job_search job_id p) (dms_headers c),
                  Print (''Warning: No platformTag found in job config for jobId '' @ job_id
                           @ ''. Using job config only.'')])
         \<and> taxonomy_calls (snd (fetch_model_by_job_id w c job_id p tr)) = taxonomy_calls tr
         \<and> http_calls (snd (fetch_model_by_job_id w c job_id p tr)) =
             http_calls tr @ [HttpPost (documents_url w) (job_search job_id p) (dms_headers c)]\<close>
proof -
  from assms(1) have tr1: "tr1 = tr @ [HttpPost (documents_url w) (job_search job_id p) (dms_headers c)]"
    unfolding fetch_job_config_def by (rule search_documents_trace)
  from assms(2) have tag: "\<exists>t. py_get (JDict job_config) ''platformTag'' JNull = Inr t \<and> \<not> truthy t"
    by (cases "map_of job_config ''platformTag''") simp_all
  then obtain t where t: "py_get (JDict job_config) ''platformTag'' JNull = Inr t" "\<not> truthy t"
    by blast
  have cfg: "resolve_config w c job_id p tr =
               (Inr (JDict job_config), tr1 @ [Print (no_platform_tag_warning job_id)])"
    using assms(1) t by (simp add: resolve_config_def)
  have run: "fetch_model_by_job_id w c job_id p tr =
           ((case map_of job_config ''foundations-table-name'' of
               None \<Rightarrow> Inl (no_table_name job_id)
             | Some model \<Rightarrow> if truthy model then Inr model else Inl (no_table_name job_id)),
            tr1 @ [Print (no_platform_tag_warning job_id)])"
    by (simp add: fetch_model_by_job_id_def cfg split: option.splits)
  show ?thesis
    unfolding run by (simp add: tr1 no_platform_tag_warning_def taxonomy_calls_def http_calls_def)
qed

theorem missing_platform_tag_uses_job_config_witness:
  "fetch_model_by_job_id (job_only_world [(''foundations-table-name'', JStr ''jobs.raw'')])
       dev_client ''raw1'' False [] =
     (Inr (JStr ''jobs.raw''),
      [HttpPost ''https://dms/documents/get?keyed=true&json=true'' (job_search ''raw1'' False)
         (dms_headers dev_client),
       Print ''Warning: No platformTag found in job config for jobId raw1. Using job config only.''])"
proof -
  let ?w = "job_only_world [(''foundations-table-name'', JStr ''jobs.raw'')]"
  have h1: "fetch_job_config ?w dev_client ''raw1'' False [] =
      (Inr (JDict [(''foundations-table-name'', JStr ''jobs.raw'')]),
       [HttpPost (documents_url ?w) (job_search ''raw1'' False) (dms_headers dev_client)])"
    by (simp add: run_defs)
  have h2: "\<forall>t. map_of [(''foundations-table-name'', JStr ''jobs.raw'')] ''platformTag'' = Some t
               \<longrightarrow> \<not> truthy t"
    by simp
  have url: "documents_url ?w = ''https://dms/documents/get?keyed=true&json=true''"
    by (simp add: run_defs)
  show ?thesis
    using missing_platform_tag_uses_job_config [OF h1 h2] by (simp add: url)
qed

text \<open>
  Claim C2. When model resolution yields \<open>model\<close>, \<^verbatim>\<open>fetch_model_and_pool_name\<close> returns
  exactly \<^verbatim>\<open>+{model} --vars '{"pool_name": "{pool}", "scala_job_id": "{job_id}"}'\<close>, where
  \<open>pool\<close> is \<open>job_id\<close> with each \<^verbatim>\<open>/\<close> turned into \<^verbatim>\<open>_\<close> and every other character
  kept; a model that is a string is inserted as it is, and nothing is escaped.
\<close>

theorem invocation_string:
  assumes "fetch_model_by_job_id w c job_id (is_prod c) tr = (Inr model, tr')"
  shows \<open>fetch_model_and_pool_name w c job_id tr =
           (Inr (''+'' @ py_str (py_repr w) model @ '' --vars '{"pool_name": "''
                   @ replace_slash job_id @ ''", "scala_job_id": "'' @ job_id
                   @ ''"}'' @ [CHR 0x27]), tr')
         \<and> length (replace_slash job_id) = length job_id
         \<and> (\<forall>i < length job_id.
               replace_slash job_id ! i = (if job_id ! i = CHR ''/'' then CHR ''_'' else job_id ! i))
         \<and> (\<forall>s. model = JStr s \<longrightarrow> py_str (py_repr w) model = s)\<close>
  using assms
  by (simp add: fetch_model_and_pool_name_def invocation_def replace_slash_nth)
    (simp add: replace_slash_def)

theorem invocation_string_witness:
  \<open>fetch_model_and_pool_name (job_only_world [(''foundations-table-name'', JStr ''analytics.table1'')])
       dev_client ''teamA/pipeline1'' [] =
     (Inr (''+analytics.table1 --vars '{"pool_name": "teamA_pipeline1", "scala_job_id": "teamA/pipeline1"}''
             @ [CHR 0x27]),
      [HttpPost ''https://dms/documents/get?keyed=true&json=true'' (job_search ''teamA/pipeline1'' False)
         (dms_headers dev_client),
       Print ''Warning: No platformTag found in job config for jobId teamA/pipeline1. Using job config only.''])\<close>
proof -
  let ?w = "job_only_world [(''foundations-table-name'', JStr ''analytics.table1'')]"
  have h: "fetch_model_by_job_id ?w dev_client ''teamA/pipeline1'' (is_prod dev_client) [] =
     (Inr (JStr ''analytics.table1''),
      [HttpPost ''https://dms/documents/get?keyed=true&json=true'' (job_search ''teamA/pipeline1'' False)
         (dms_headers dev_client),
       Print ''Warning: No platformTag found in job config for jobId teamA/pipeline1. Using job config only.''])"
    by (simp add: run_defs)
  show ?thesis
    using invocation_string [OF h] by (simp add: replace_slash_def)
qed


section \<open>Properties of the Taxonomy Resolver and of the order of calls\<close>

lemma api_key_or_secret_trace:
  "api_key_or_secret w k name tr = (r, tr') \<Longrightarrow> \<exists>new. tr' = tr @ new \<and> http_calls new = []"
  by (auto simp: api_key_or_secret_def get_secret_def Let_def http_calls_def
        split: option.splits sum.splits if_splits)

lemma DLCTaxonomyClient_init_trace:
  "DLCTaxonomyClient_init w k agent tr = (r, tr') \<Longrightarrow> \<exists>new. tr' = tr @ new \<and> http_calls new = []"
  by (auto simp: DLCTaxonomyClient_init_def split: prod.splits sum.splits if_splits
        dest: api_key_or_secret_trace)

lemma DLCTaxonomyClient_init_cache:
  "DLCTaxonomyClient_init w k agent tr = (Inr dlc, tr') \<Longrightarrow> taxonomy_cache dlc = None"
  by (auto simp: DLCTaxonomyClient_init_def split: prod.splits sum.splits if_splits)

lemma fetch_taxonomy_tags_trace:
  "fetch_taxonomy_tags w c tr = (r, tr') \<Longrightarrow> tr' = tr @ [HttpGet (taxonomy_url w) (dlc_headers c)]"
  by (auto simp: fetch_taxonomy_tags_def Let_def split: sum.splits)

lemma get_taxonomy_tag_id_fresh_trace:
  "taxonomy_cache c = None \<Longrightarrow> get_taxonomy_tag_id w c tag tr = (r, c', tr') \<Longrightarrow>
   tr' = tr @ [HttpGet (taxonomy_url w) (dlc_headers c)]"
  by (auto simp: get_taxonomy_tag_id_def split: prod.splits sum.splits
        dest: fetch_taxonomy_tags_trace)

lemma get_taxonomy_tag_id_cached:
  "taxonomy_cache c = Some cache \<Longrightarrow>
   get_taxonomy_tag_id w c tag tr = (lookup_tag w cache tag, c, tr)"
  by (simp add: get_taxonomy_tag_id_def)

lemma get_taxonomy_tag_ids_cached:
  "taxonomy_cache c = Some cache \<Longrightarrow> get_taxonomy_tag_ids w c tags tr = (c, tr)"
  by (induction tags) (simp_all add: get_taxonomy_tag_id_cached)

text \<open>
  Claim C4, as the code has it. On one \<^verbatim>\<open>DLCTaxonomyClient\<close> whose cache is unset, when
  the fetch of the first call succeeds, any sequence of one or more lookups (same or
  different tags, found or not) issues exactly one taxonomy request, that of the first
  call; the cache is stored once and every later call reuses it. When the fetch of a
  call raises, the call raises the same error after its one request and leaves the
  instance as it was, cache unset, so the next call on the instance issues the request
  again, and the remaining lookups go on from there.
\<close>

theorem taxonomy_fetched_once:
  "(taxonomy_cache c = None \<and> fetch_taxonomy_tags w c tr = (Inr cache, tr1)
      \<longrightarrow> get_taxonomy_tag_ids w c (tag # tags) tr =
            (c\<lparr>taxonomy_cache := Some cache\<rparr>, tr @ [HttpGet (taxonomy_url w) (dlc_headers c)])
          \<and> taxonomy_calls (snd (get_taxonomy_tag_ids w c (tag # tags) tr)) = taxonomy_calls tr + 1)
   \<and> (taxonomy_cache c = None \<and> fetch_taxonomy_tags w c tr = (Inl e, tr1)
      \<longrightarrow> get_taxonomy_tag_id w c tag tr =
            (Inl e, c, tr @ [HttpGet (taxonomy_url w) (dlc_headers c)])
          \<and> snd (snd (get_taxonomy_tag_id w c next_tag
                          (tr @ [HttpGet (taxonomy_url w) (dlc_headers c)]))) =
              tr @ [HttpGet (taxonomy_url w) (dlc_headers c),
                    HttpGet (taxonomy_url w) (dlc_headers c)]
          \<and> get_taxonomy_tag_ids w c (tag # tags) tr =
              get_taxonomy_tag_ids w c tags (tr @ [HttpGet (taxonomy_url w) (dlc_headers c)]))"
proof (intro conjI impI)
  let ?G = "HttpGet (taxonomy_url w) (dlc_headers c)"
  assume a: "taxonomy_cache c = None \<and> fetch_taxonomy_tags w c tr = (Inr cache, tr1)"
  then have tr1: "tr1 = tr @ [?G]"
    by (auto dest: fetch_taxonomy_tags_trace)
  have first: "get_taxonomy_tag_id w c tag tr =
                 (lookup_tag w cache tag, c\<lparr>taxonomy_cache := Some cache\<rparr>, tr1)"
    using a by (simp add: get_taxonomy_tag_id_def)
  show all: "get_taxonomy_tag_ids w c (tag # tags) tr = (c\<lparr>taxonomy_cache := Some cache\<rparr>, tr @ [?G])"
    by (simp add: first tr1 get_taxonomy_tag_ids_cached [of _ cache])
  show "taxonomy_calls (snd (get_taxonomy_tag_ids w c (tag # tags) tr)) = taxonomy_calls tr + 1"
    unfolding all by (simp add: taxonomy_calls_def)
next
  let ?G = "HttpGet (taxonomy_url w) (dlc_headers c)"
  assume a: "taxonomy_cache c = None \<and> fetch_taxonomy_tags w c tr = (Inl e, tr1)"
  then have tr1: "tr1 = tr @ [?G]"
    by (auto dest: fetch_taxonomy_tags_trace)
  show first: "get_taxonomy_tag_id w c tag tr = (Inl e, c, tr @ [?G])"
    using a by (simp add: get_taxonomy_tag_id_def tr1)
  obtain r c' tr' where n: "get_taxonomy_tag_id w c next_tag (tr @ [?G]) = (r, c', tr')"
    by (cases "get_taxonomy_tag_id w c next_tag (tr @ [?G])")
  from a have "taxonomy_cache c = None" by simp
  from get_taxonomy_tag_id_fresh_trace [OF this n]
  show "snd (snd (get_taxonomy_tag_id w c next_tag (tr @ [?G]))) = tr @ [?G, ?G]"
    by (simp add: n)
  show "get_taxonomy_tag_ids w c (tag # tags) tr = get_taxonomy_tag_ids w c tags (tr @ [?G])"
    by (simp add: first)
qed

theorem taxonomy_fetched_once_witness:
  "get_taxonomy_tag_ids spark_world new_dlc_client [JStr ''spark'', JStr ''flink'', JStr ''spark''] [] =
     (new_dlc_client\<lparr>taxonomy_cache := Some [(JStr ''spark'', JInt 7)]\<rparr>,
      [HttpGet ''https://dlc/taxonomy'' (dlc_headers new_dlc_client)])
   \<and> get_taxonomy_tag_id taxonomy_down_world new_dlc_client (JStr ''spark'') [] =
       (Inl (HTTPError 503), new_dlc_client,
        [HttpGet ''https://dlc/taxonomy'' (dlc_headers new_dlc_client)])
   \<and> snd (snd (get_taxonomy_tag_id taxonomy_down_world new_dlc_client (JStr ''flink'')
                   [HttpGet ''https://dlc/taxonomy'' (dlc_headers new_dlc_client)])) =
       [HttpGet ''https://dlc/taxonomy'' (dlc_headers new_dlc_client),
        HttpGet ''https://dlc/taxonomy'' (dlc_headers new_dlc_client)]"
proof -
  let ?G = "HttpGet ''https://dlc/taxonomy'' (dlc_headers new_dlc_client)"
  have h1: "taxonomy_cache new_dlc_client = None"
    by (simp add: new_dlc_client_def)
  have h2: "fetch_taxonomy_tags spark_world new_dlc_client [] = (Inr [(JStr ''spark'', JInt 7)], [?G])"
    by (simp add: run_defs)
  have h3: "fetch_taxonomy_tags taxonomy_down_world new_dlc_client [] = (Inl (HTTPError 503), [?G])"
    by (simp add: run_defs taxonomy_down_world_def unavailable_def)
  have url: "taxonomy_url spark_world = ''https://dlc/taxonomy''"
            "taxonomy_url taxonomy_down_world = ''https://dlc/taxonomy''"
    by (simp_all add: run_defs taxonomy_down_world_def)
  from taxonomy_fetched_once
         [where c = new_dlc_client and w = spark_world and tr = "[]"
            and cache = "[(JStr ''spark'', JInt 7)]" and ?tr1.0 = "[?G]"
            and tag = "JStr ''spark''" and tags = "[JStr ''flink'', JStr ''spark'']"]
       h1 h2
  have part1: "get_taxonomy_tag_ids spark_world new_dlc_client
                 [JStr ''spark'', JStr ''flink'', JStr ''spark''] [] =
     (new_dlc_client\<lparr>taxonomy_cache := Some [(JStr ''spark'', JInt 7)]\<rparr>, [?G])"
    by (simp add: url)
  from taxonomy_fetched_once
         [where c = new_dlc_client and w = taxonomy_down_world and tr = "[]"
            and e = "HTTPError 503" and ?tr1.0 = "[?G]"
            and tag = "JStr ''spark''" and next_tag = "JStr ''flink''"]
       h1 h3
  have part2: "get_taxonomy_tag_id taxonomy_down_world new_dlc_client (JStr ''spark'') [] =
       (Inl (HTTPError 503), new_dlc_client, [?G])
     \<and> snd (snd (get_taxonomy_tag_id taxonomy_down_world new_dlc_client (JStr ''flink'') [?G])) =
       [?G, ?G]"
    by (simp add: url)
  from part1 part2 show ?thesis by simp
qed

text \<open>
  Claim C4 as stated fails when the fetch raises: \<^verbatim>\<open>_taxonomy_cache\<close> stays \<^verbatim>\<open>None\<close>,
  and the next call on the same instance issues the request again. Two lookups against
  a service that answers 503 make two requests.
\<close>

theorem taxonomy_fetched_once_counterexample:
  "taxonomy_calls (snd (get_taxonomy_tag_ids taxonomy_down_world new_dlc_client
                          [JStr ''spark'', JStr ''spark''] [])) = 2"
  by (simp add: get_taxonomy_tag_id_def fetch_taxonomy_tags_def taxonomy_down_world_def
        fixed_world_def unavailable_def checked_json_def raise_for_status_def new_dlc_client_def
        taxonomy_calls_def)

lemma http_calls_append: "http_calls (xs @ ys) = http_calls xs @ http_calls ys"
  by (simp add: http_calls_def)

lemma http_calls_post: "http_calls [HttpPost u s h] = [HttpPost u s h]"
  by (simp add: http_calls_def)

lemma http_calls_get: "http_calls [HttpGet u h] = [HttpGet u h]"
  by (simp add: http_calls_def)

lemma http_calls_print: "http_calls [Print m] = []"
  by (simp add: http_calls_def)

lemma resolve_config_calls:
  assumes "resolve_config w c job_id p tr = (r, tr')"
  shows "\<exists>new. tr' = tr @ new \<and> call_shape w c job_id p (\<not> isl r) (http_calls new)"
proof -
  let ?P1 = "HttpPost (documents_url w) (job_search job_id p) (dms_headers c)"
  obtain r1 tr1 where f: "fetch_job_config w c job_id p tr = (r1, tr1)"
    by (cases "fetch_job_config w c job_id p tr")
  then have tr1: "tr1 = tr @ [?P1]"
    unfolding fetch_job_config_def by (rule search_documents_trace)
  show ?thesis
  proof (cases r1)
    case (Inl e)
    with assms f have "tr' = tr1" by (simp add: resolve_config_def)
    then show ?thesis
      unfolding tr1 by (auto simp: call_shape_def http_calls_post)
  next
    case (Inr job_config)
    show ?thesis
    proof (cases "py_get job_config ''platformTag'' JNull")
      case (Inl e)
      with assms f Inr have "tr' = tr1" by (simp add: resolve_config_def)
      then show ?thesis
        unfolding tr1 by (auto simp: call_shape_def http_calls_post)
    next
      case tag: (Inr platform_tag)
      show ?thesis
      proof (cases "truthy platform_tag")
        case False
        with assms f Inr tag have "tr' = tr1 @ [Print (no_platform_tag_warning job_id)]"
          by (simp add: resolve_config_def)
        then have "tr' = tr @ [?P1, Print (no_platform_tag_warning job_id)]"
          by (simp add: tr1)
        moreover have "http_calls [?P1, Print (no_platform_tag_warning job_id)] = [?P1]"
          by (simp add: http_calls_def)
        ultimately show ?thesis
          by (auto simp: call_shape_def)
      next
        case True
        obtain r2 tr2 where i: "DLCTaxonomyClient_init w None ''Foundations DBT Runner'' tr1 = (r2, tr2)"
          by (cases "DLCTaxonomyClient_init w None ''Foundations DBT Runner'' tr1")
        from DLCTaxonomyClient_init_trace [OF i] obtain s where
          tr2: "tr2 = tr1 @ s" and s: "http_calls s = []" by blast
        show ?thesis
        proof (cases r2)
          case (Inl e)
          with assms f Inr tag True i have "tr' = tr2" by (simp add: resolve_config_def)
          then have "tr' = tr @ ([?P1] @ s)" by (simp add: tr1 tr2)
          moreover have "http_calls ([?P1] @ s) = [?P1]"
            unfolding http_calls_append s http_calls_post by simp
          ultimately show ?thesis
            unfolding call_shape_def by blast
        next
          case dlc: (Inr dlc)
          from i dlc have fresh: "taxonomy_cache dlc = None"
            by (auto dest: DLCTaxonomyClient_init_cache)
          obtain r3 dlc' tr3 where g: "get_taxonomy_tag_id w dlc platform_tag tr2 = (r3, dlc', tr3)"
            by (cases "get_taxonomy_tag_id w dlc platform_tag tr2")
          let ?G = "HttpGet (taxonomy_url w) (dlc_headers dlc)"
          from get_taxonomy_tag_id_fresh_trace [OF fresh g]
          have tr3: "tr3 = tr2 @ [?G]" .
          show ?thesis
          proof (cases r3)
            case (Inl e)
            with assms f Inr tag True i dlc g have res: "tr' = tr3" "r = Inl e"
              by (auto simp: resolve_config_def)
            then have "tr' = tr @ ([?P1] @ s @ [?G])" by (simp add: tr1 tr2 tr3)
            moreover have "http_calls ([?P1] @ s @ [?G]) = [?P1, ?G]"
              unfolding http_calls_append s http_calls_post http_calls_get by simp
            ultimately show ?thesis
              unfolding call_shape_def using res(2) by auto
          next
            case tid: (Inr taxonomy_tag_id)
            obtain r4 tr4 where h: "fetch_shared_platform_config w c taxonomy_tag_id p tr3 = (r4, tr4)"
              by (cases "fetch_shared_platform_config w c taxonomy_tag_id p tr3")
            let ?P2 = "HttpPost (documents_url w) (shared_search taxonomy_tag_id p) (dms_headers c)"
            from h have tr4: "tr4 = tr3 @ [?P2]"
              unfolding fetch_shared_platform_config_def by (rule search_documents_trace)
            from assms f Inr tag True i dlc g tid h have "tr' = tr4"
              by (auto simp: resolve_config_def split: sum.splits)
            then have "tr' = tr @ ([?P1] @ s @ [?G] @ [?P2])" by (simp add: tr1 tr2 tr3 tr4)
            moreover have "http_calls ([?P1] @ s @ [?G] @ [?P2]) = [?P1, ?G, ?P2]"
              unfolding http_calls_append s http_calls_post http_calls_get by simp
            ultimately show ?thesis
              unfolding call_shape_def by blast
          qed
        qed
      qed
    qed
  qed
qed

lemma fetch_model_by_job_id_calls:
  assumes "fetch_model_by_job_id w c job_id p tr = (r, tr')"
  shows "\<exists>new. tr' = tr @ new \<and> call_shape w c job_id p (\<not> isl r) (http_calls new)"
proof -
  obtain r0 tr0 where rc: "resolve_config w c job_id p tr = (r0, tr0)"
    by (cases "resolve_config w c job_id p tr")
  from resolve_config_calls [OF rc] obtain new where
    new: "tr0 = tr @ new" "call_shape w c job_id p (\<not> isl r0) (http_calls new)" by blast
  from assms rc have "tr' = tr0" and "\<not> isl r \<longrightarrow> \<not> isl r0"
    by (auto simp: fetch_model_by_job_id_def split: sum.splits if_splits)
  with new show ?thesis
    by (auto simp: call_shape_def)
qed


lemma taxonomy_calls_http: "taxonomy_calls tr = length (filter is_taxonomy_call (http_calls tr))"
proof -
  have "(\<lambda>x. (is_taxonomy_call x \<or> is_document_call x) \<and> is_taxonomy_call x) = is_taxonomy_call"
    by auto
  then show ?thesis
    by (simp add: taxonomy_calls_def http_calls_def)
qed

lemma taxonomy_calls_append: "taxonomy_calls (xs @ ys) = taxonomy_calls xs + taxonomy_calls ys"
  by (simp add: taxonomy_calls_def)

lemma call_shape_taxonomy: "call_shape w c job_id p success calls \<Longrightarrow> length (filter is_taxonomy_call calls) \<le> 1"
  by (auto simp: call_shape_def)

lemma fetch_model_and_pool_name_calls:
  "\<exists>new. snd (fetch_model_and_pool_name w c job_id tr) = tr @ new
      \<and> call_shape w c job_id (is_prod c) (\<not> isl (fst (fetch_model_and_pool_name w c job_id tr)))
           (http_calls new)"
proof -
  obtain r tr' where f: "fetch_model_by_job_id w c job_id (is_prod c) tr = (r, tr')"
    by (cases "fetch_model_by_job_id w c job_id (is_prod c) tr")
  from fetch_model_by_job_id_calls [OF f] obtain new where
    new: "tr' = tr @ new" "call_shape w c job_id (is_prod c) (\<not> isl r) (http_calls new)" by blast
  have "snd (fetch_model_and_pool_name w c job_id tr) = tr'"
    and "isl (fst (fetch_model_and_pool_name w c job_id tr)) = isl r"
    using f by (auto simp: fetch_model_and_pool_name_def split: sum.splits)
  with new show ?thesis by auto
qed

lemma resolve_all_taxonomy_calls:
  "taxonomy_calls (resolve_all w c job_ids tr) \<le> taxonomy_calls tr + length job_ids"
proof (induction job_ids arbitrary: tr)
  case Nil
  then show ?case by simp
next
  case (Cons job_id rest)
  from fetch_model_and_pool_name_calls [of w c job_id tr] obtain new success where
    new: "snd (fetch_model_and_pool_name w c job_id tr) = tr @ new"
         "call_shape w c job_id (is_prod c) success (http_calls new)" by blast
  have "taxonomy_calls new \<le> 1"
    unfolding taxonomy_calls_http using new(2) by (rule call_shape_taxonomy)
  then have "taxonomy_calls (tr @ new) \<le> taxonomy_calls tr + 1"
    by (simp add: taxonomy_calls_append)
  with Cons.IH [of "tr @ new"] show ?case
    by (simp add: new(1))
qed

text \<open>
  Claim C9, as the code has it. Each call of \<^verbatim>\<open>fetch_model_and_pool_name\<close> extends the
  trace by requests in this order: one document-store search for the job, then
  optionally one taxonomy request and one further document-store search (a call that
  succeeds made either the first alone or all three), so each call makes at most one
  taxonomy request, and \<open>n\<close> calls on one client make at most \<open>n\<close>.
\<close>

theorem resolution_calls_in_order:
  "(\<exists>new. snd (fetch_model_and_pool_name w c job_id tr) = tr @ new
      \<and> call_shape w c job_id (is_prod c) (\<not> isl (fst (fetch_model_and_pool_name w c job_id tr)))
           (http_calls new)
      \<and> taxonomy_calls new \<le> 1)
   \<and> taxonomy_calls (resolve_all w c job_ids tr) \<le> taxonomy_calls tr + length job_ids"
proof -
  from fetch_model_and_pool_name_calls [of w c job_id tr] obtain new where
    new: "snd (fetch_model_and_pool_name w c job_id tr) = tr @ new"
         "call_shape w c job_id (is_prod c) (\<not> isl (fst (fetch_model_and_pool_name w c job_id tr)))
            (http_calls new)" by blast
  have "taxonomy_calls new \<le> 1"
    unfolding taxonomy_calls_http using new(2) by (rule call_shape_taxonomy)
  with new resolve_all_taxonomy_calls show ?thesis by blast
qed

lemma spark_run:
  "fetch_model_and_pool_name spark_world dev_client ''job1'' tr =
     (Inr (invocation ''jobs.spark_x'' ''job1'' ''job1''),
      tr @ [HttpPost ''https://dms/documents/get?keyed=true&json=true'' (job_search ''job1'' False)
              (dms_headers dev_client),
            SecretAccess ''projects/foundations-dev/secrets/DLC_API_KEY/versions/latest'',
            HttpGet ''https://dlc/taxonomy'' (dlc_headers new_dlc_client),
            HttpPost ''https://dms/documents/get?keyed=true&json=true'' (shared_search (JInt 7) False)
              (dms_headers dev_client)])"
  by (simp add: run_defs new_dlc_client_def replace_slash_def)

theorem resolution_calls_in_order_witness:
  "taxonomy_calls (resolve_all spark_world dev_client [''job1'', ''job1'', ''job1''] []) \<le> 3"
  using resolution_calls_in_order [of spark_world dev_client "''job1''" "[]" "[''job1'', ''job1'', ''job1'']"]
  by (simp add: taxonomy_calls_def)

text \<open>
  Claim C9 as stated fails: \<^verbatim>\<open>_fetch_model_by_job_id\<close> creates a new
  \<^verbatim>\<open>DLCTaxonomyClient\<close> in every call, so the cache of one call is never seen by the
  next. Resolving the \<^verbatim>\<open>spark\<close> job twice on one client makes two taxonomy requests.
\<close>

theorem taxonomy_cached_across_resolutions_counterexample:
  "taxonomy_calls (resolve_all spark_world dev_client [''job1'', ''job1''] []) = 2"
  by (simp add: spark_run taxonomy_calls_def)


section \<open>Failures of the document-store searches\<close>

lemma search_documents_no_records:
  assumes "requests_post w tr (documents_url w) search (dms_headers c) = Inr resp"
      and "checked_json resp = Inr records" and "\<not> truthy records"
  shows "search_documents w c search nf tr =
           (Inl nf, tr @ [HttpPost (documents_url w) search (dms_headers c)])"
  using assms by (simp add: search_documents_def)

lemma search_documents_no_json:
  assumes "requests_post w tr (documents_url w) search (dms_headers c) = Inr resp"
      and "checked_json resp = Inr (JList (JDict record0 # others))"
      and "map_of record0 ''json'' = None"
  shows "search_documents w c search nf tr =
           (Inr (JDict []), tr @ [HttpPost (documents_url w) search (dms_headers c)])"
  using assms by (simp add: search_documents_def)

lemma resolve_config_shared:
  assumes "fetch_job_config w c job_id p tr = (Inr job_config, tr1)"
      and "py_get job_config ''platformTag'' JNull = Inr platform_tag"
      and "truthy platform_tag"
      and "DLCTaxonomyClient_init w None ''Foundations DBT Runner'' tr1 = (Inr dlc, tr2)"
      and "get_taxonomy_tag_id w dlc platform_tag tr2 = (Inr taxonomy_tag_id, dlc', tr3)"
      and "fetch_shared_platform_config w c taxonomy_tag_id p tr3 = (r, tr4)"
  shows "resolve_config w c job_id p tr =
           (case r of Inl e \<Rightarrow> Inl e
            | Inr shared_config \<Rightarrow> deep_merge_with_priority shared_config job_config, tr4)"
  using assms by (simp add: resolve_config_def split: sum.splits)

lemma deep_merge_empty_base:
  assumes "distinct (map fst job)"
  shows "map_of (deep_merge [] job) k = map_of job k"
  using deep_merge_lookup [OF assms, of "[]" k]
  by (simp add: merged_entry_def split: option.splits)

lemmas run_defs2 = run_defs no_job_world_def spark_world_with_shared_def new_dlc_client_def

text \<open>
  Claim C7. When the search for the job config (respectively for the shared config of
  the taxonomy id) returns no record, model resolution fails with the not-found error
  of that search: \<^verbatim>\<open>ValueError\<close> with the message "No job config found for jobId ..."
  (respectively "No shared config found for taxonomyTagId ..."). This error is none of
  the other kinds: it differs from the error for the missing table name, from the
  error for the unset project and from the errors for the missing API keys, all by
  the message, and from the HTTP status error by the exception type.
\<close>

theorem no_records_raise_value_error:
  \<open>(requests_post w tr (documents_url w) (job_search job_id p) (dms_headers c) = Inr resp
      \<and> checked_json resp = Inr records \<and> \<not> truthy records
     \<longrightarrow> fetch_model_by_job_id w c job_id p tr =
           (Inl (ValueError (''No job config found for jobId '' @ job_id)),
            tr @ [HttpPost (documents_url w) (job_search job_id p) (dms_headers c)]))
   \<and> (fetch_job_config w c job_id p tr = (Inr job_config, tr1)
      \<and> py_get job_config ''platformTag'' JNull = Inr platform_tag \<and> truthy platform_tag
      \<and> DLCTaxonomyClient_init w None ''Foundations DBT Runner'' tr1 = (Inr dlc, tr2)
      \<and> get_taxonomy_tag_id w dlc platform_tag tr2 = (Inr taxonomy_tag_id, dlc', tr3)
      \<and> requests_post w tr3 (documents_url w) (shared_search taxonomy_tag_id p) (dms_headers c)
           = Inr resp'
      \<and> checked_json resp' = Inr records' \<and> \<not> truthy records'
     \<longrightarrow> fetch_model_by_job_id w c job_id p tr =
           (Inl (ValueError (''No shared config found for taxonomyTagId ''
                               @ py_str (py_repr w) taxonomy_tag_id)),
            tr3 @ [HttpPost (documents_url w) (shared_search taxonomy_tag_id p) (dms_headers c)]))
   \<and> job_not_found job_id = ValueError (''No job config found for jobId '' @ job_id)
   \<and> shared_not_found w taxonomy_tag_id =
       ValueError (''No shared config found for taxonomyTagId '' @ py_str (py_repr w) taxonomy_tag_id)
   \<and> job_not_found job_id \<noteq> no_table_name any_job
   \<and> shared_not_found w taxonomy_tag_id \<noteq> no_table_name any_job
   \<and> type_of_error (job_not_found job_id) \<noteq> type_of_error (HTTPError status)
   \<and> type_of_error (shared_not_found w taxonomy_tag_id) \<noteq> type_of_error (HTTPError status)
   \<and> (SecretManagerClient_init w project = Inl config_error
      \<longrightarrow> config_error \<noteq> job_not_found job_id
          \<and> config_error \<noteq> shared_not_found w taxonomy_tag_id)
   \<and> (api_key_or_secret w key ''DMS_API_KEY'' tr0 = (Inr secret, tra)
      \<and> DMSClient_init w key tr0 = (Inl dms_key_error, trb)
      \<longrightarrow> dms_key_error \<noteq> job_not_found job_id
          \<and> dms_key_error \<noteq> shared_not_found w taxonomy_tag_id)
   \<and> (api_key_or_secret w key ''DLC_API_KEY'' tr0 = (Inr secret', trc)
      \<and> DLCTaxonomyClient_init w key agent tr0 = (Inl dlc_key_error, trd)
      \<longrightarrow> dlc_key_error \<noteq> job_not_found job_id
          \<and> dlc_key_error \<noteq> shared_not_found w taxonomy_tag_id)\<close>
proof -
  have part1: "fetch_model_by_job_id w c job_id p tr =
           (Inl (ValueError (''No job config found for jobId '' @ job_id)),
            tr @ [HttpPost (documents_url w) (job_search job_id p) (dms_headers c)])"
    if a: "requests_post w tr (documents_url w) (job_search job_id p) (dms_headers c) = Inr resp
      \<and> checked_json resp = Inr records \<and> \<not> truthy records"
  proof -
    from a have "fetch_job_config w c job_id p tr =
      (Inl (job_not_found job_id), tr @ [HttpPost (documents_url w) (job_search job_id p) (dms_headers c)])"
      unfolding fetch_job_config_def by (intro search_documents_no_records) auto
    then show ?thesis
      by (simp add: fetch_model_by_job_id_def resolve_config_def job_not_found_def)
  qed
  have part2: "fetch_model_by_job_id w c job_id p tr =
           (Inl (ValueError (''No shared config found for taxonomyTagId ''
                               @ py_str (py_repr w) taxonomy_tag_id)),
            tr3 @ [HttpPost (documents_url w) (shared_search taxonomy_tag_id p) (dms_headers c)])"
    if a: "fetch_job_config w c job_id p tr = (Inr job_config, tr1)
      \<and> py_get job_config ''platformTag'' JNull = Inr platform_tag \<and> truthy platform_tag
      \<and> DLCTaxonomyClient_init w None ''Foundations DBT Runner'' tr1 = (Inr dlc, tr2)
      \<and> get_taxonomy_tag_id w dlc platform_tag tr2 = (Inr taxonomy_tag_id, dlc', tr3)
      \<and> requests_post w tr3 (documents_url w) (shared_search taxonomy_tag_id p) (dms_headers c)
           = Inr resp'
      \<and> checked_json resp' = Inr records' \<and> \<not> truthy records'"
  proof -
    from a have sh: "fetch_shared_platform_config w c taxonomy_tag_id p tr3 =
      (Inl (shared_not_found w taxonomy_tag_id),
       tr3 @ [HttpPost (documents_url w) (shared_search taxonomy_tag_id p) (dms_headers c)])"
      unfolding fetch_shared_platform_config_def by (intro search_documents_no_records) auto
    from a have "resolve_config w c job_id p tr =
      (Inl (shared_not_found w taxonomy_tag_id),
       tr3 @ [HttpPost (documents_url w) (shared_search taxonomy_tag_id p) (dms_headers c)])"
      using resolve_config_shared [OF _ _ _ _ _ sh, of job_id tr job_config tr1 platform_tag dlc tr2 dlc']
      by simp
    then show ?thesis
      by (simp add: fetch_model_by_job_id_def shared_not_found_def)
  qed
  have msgs: "job_not_found job_id = ValueError (''No job config found for jobId '' @ job_id)"
    "shared_not_found w taxonomy_tag_id =
       ValueError (''No shared config found for taxonomyTagId '' @ py_str (py_repr w) taxonomy_tag_id)"
    "job_not_found job_id \<noteq> no_table_name any_job"
    "shared_not_found w taxonomy_tag_id \<noteq> no_table_name any_job"
    "type_of_error (job_not_found job_id) \<noteq> type_of_error (HTTPError status)"
    "type_of_error (shared_not_found w taxonomy_tag_id) \<noteq> type_of_error (HTTPError status)"
    by (simp_all add: job_not_found_def shared_not_found_def no_table_name_def)
  have cfg: "config_error \<noteq> job_not_found job_id
          \<and> config_error \<noteq> shared_not_found w taxonomy_tag_id"
    if "SecretManagerClient_init w project = Inl config_error"
    using that
    by (auto simp: SecretManagerClient_init_def Let_def job_not_found_def shared_not_found_def
          split: option.splits if_splits)
  have dms: "dms_key_error \<noteq> job_not_found job_id
          \<and> dms_key_error \<noteq> shared_not_found w taxonomy_tag_id"
    if "api_key_or_secret w key ''DMS_API_KEY'' tr0 = (Inr secret, tra)
      \<and> DMSClient_init w key tr0 = (Inl dms_key_error, trb)"
    using that
    by (auto simp: DMSClient_init_def job_not_found_def shared_not_found_def split: if_splits)
  have dlc: "dlc_key_error \<noteq> job_not_found job_id
          \<and> dlc_key_error \<noteq> shared_not_found w taxonomy_tag_id"
    if "api_key_or_secret w key ''DLC_API_KEY'' tr0 = (Inr secret', trc)
      \<and> DLCTaxonomyClient_init w key agent tr0 = (Inl dlc_key_error, trd)"
    using that
    by (auto simp: DLCTaxonomyClient_init_def job_not_found_def shared_not_found_def split: if_splits)
  show ?thesis
    using part1 part2 msgs cfg dms dlc by blast
qed

theorem no_records_raise_value_error_witness:
  \<open>fetch_model_by_job_id no_job_world dev_client ''job1'' False [] =
     (Inl (ValueError ''No job config found for jobId job1''),
      [HttpPost ''https://dms/documents/get?keyed=true&json=true'' (job_search ''job1'' False)
         (dms_headers dev_client)])
   \<and> fst (fetch_model_by_job_id (spark_world_with_shared (JList [])) dev_client ''job1'' False []) =
       Inl (ValueError ''No shared config found for taxonomyTagId 7'')
   \<and> SecretManagerClient_init unconfigured_world None =
       Inl (ValueError ''GCP_TARGET_PROJECT environment variable must be set'')
   \<and> ValueError ''GCP_TARGET_PROJECT environment variable must be set'' \<noteq> job_not_found ''job1''
   \<and> fst (DMSClient_init empty_secret_world None []) =
       Inl (ValueError ''DMS_API_KEY secret not found in Secret Manager'')
   \<and> ValueError ''DMS_API_KEY secret not found in Secret Manager'' \<noteq> job_not_found ''job1''
   \<and> fst (DLCTaxonomyClient_init empty_secret_world None ''Foundations DBT Runner'' []) =
       Inl (ValueError ''DLC_API_KEY secret not found in Secret Manager'')
   \<and> ValueError ''DLC_API_KEY secret not found in Secret Manager'' \<noteq> job_not_found ''job1''\<close>
proof -
  let ?P1 = "HttpPost ''https://dms/documents/get?keyed=true&json=true'' (job_search ''job1'' False)
               (dms_headers dev_client)"
  let ?S = "SecretAccess ''projects/foundations-dev/secrets/DLC_API_KEY/versions/latest''"
  let ?G = "HttpGet ''https://dlc/taxonomy'' (dlc_headers new_dlc_client)"
  let ?w = "spark_world_with_shared (JList [])"
  let ?job = "JDict [(''platformTag'', JStr ''spark''), (''foundations-table-name'', JStr ''jobs.spark_x'')]"
  have a1: "requests_post no_job_world [] (documents_url no_job_world) (job_search ''job1'' False)
              (dms_headers dev_client) = Inr (ok (JList []))"
    by (simp add: run_defs2)
  have a2: "checked_json (ok (JList [])) = Inr (JList [])"
    by (simp add: run_defs2)
  have url: "documents_url no_job_world = ''https://dms/documents/get?keyed=true&json=true''"
            "documents_url ?w = ''https://dms/documents/get?keyed=true&json=true''"
    by (simp_all add: run_defs2)
  have b1: "fetch_job_config ?w dev_client ''job1'' False [] = (Inr ?job, [?P1])"
    by (simp add: run_defs2)
  have b2: "py_get ?job ''platformTag'' JNull = Inr (JStr ''spark'')"
    by simp
  have b3: "DLCTaxonomyClient_init ?w None ''Foundations DBT Runner'' [?P1] =
              (Inr new_dlc_client, [?P1, ?S])"
    by (simp add: run_defs2)
  have b4: "get_taxonomy_tag_id ?w new_dlc_client (JStr ''spark'') [?P1, ?S] =
              (Inr (JInt 7), new_dlc_client\<lparr>taxonomy_cache := Some [(JStr ''spark'', JInt 7)]\<rparr>,
               [?P1, ?S, ?G])"
    by (simp add: run_defs2)
  have b5: "requests_post ?w [?P1, ?S, ?G] (documents_url ?w) (shared_search (JInt 7) False)
              (dms_headers dev_client) = Inr (ok (JList []))"
    by (simp add: run_defs2)
  have seven: "py_str_int 7 = ''7''"
    by (simp add: py_str_int_def decimal_digit_def)
  from no_records_raise_value_error
         [where w = no_job_world and tr = "[]" and job_id = "''job1''" and p = False
            and c = dev_client and resp = "ok (JList [])" and records = "JList []"]
       a1 a2
  have part1: "fetch_model_by_job_id no_job_world dev_client ''job1'' False [] =
     (Inl (ValueError ''No job config found for jobId job1''), [?P1])"
    by (simp add: url)
  from no_records_raise_value_error
         [where w = ?w and tr = "[]" and job_id = "''job1''" and p = False and c = dev_client
            and job_config = ?job and ?tr1.0 = "[?P1]" and platform_tag = "JStr ''spark''"
            and dlc = new_dlc_client and ?tr2.0 = "[?P1, ?S]" and taxonomy_tag_id = "JInt 7"
            and dlc' = "new_dlc_client\<lparr>taxonomy_cache := Some [(JStr ''spark'', JInt 7)]\<rparr>"
            and ?tr3.0 = "[?P1, ?S, ?G]" and resp' = "ok (JList [])" and records' = "JList []"]
       b1 b2 b3 b4 b5 a2
  have part2: "fst (fetch_model_by_job_id ?w dev_client ''job1'' False []) =
       Inl (ValueError ''No shared config found for taxonomyTagId 7'')"
    by (simp add: seven)
  have c1: "SecretManagerClient_init unconfigured_world None =
              Inl (ValueError ''GCP_TARGET_PROJECT environment variable must be set'')"
    by (simp add: SecretManagerClient_init_def unconfigured_world_def run_defs2)
  from no_records_raise_value_error
         [where w = unconfigured_world and project = None and job_id = "''job1''"
            and config_error = "ValueError ''GCP_TARGET_PROJECT environment variable must be set''"
            and taxonomy_tag_id = JNull, THEN conjunct2, THEN conjunct2, THEN conjunct2, THEN conjunct2, THEN conjunct2, THEN conjunct2, THEN conjunct2, THEN conjunct2, THEN conjunct1]
       c1
  have part3: "ValueError ''GCP_TARGET_PROJECT environment variable must be set'' \<noteq> job_not_found ''job1''"
    by blast
  let ?D = "[SecretAccess ''projects/foundations-dev/secrets/DMS_API_KEY/versions/latest'']"
  let ?L = "[SecretAccess ''projects/foundations-dev/secrets/DLC_API_KEY/versions/latest'']"
  have d1: "api_key_or_secret empty_secret_world None ''DMS_API_KEY'' [] = (Inr [], ?D)"
    by (simp add: empty_secret_world_def run_defs2)
  have d2: "DMSClient_init empty_secret_world None [] =
              (Inl (ValueError ''DMS_API_KEY secret not found in Secret Manager''), ?D)"
    by (simp add: DMSClient_init_def d1)
  from no_records_raise_value_error
         [where w = empty_secret_world and key = None and ?tr0.0 = "[]" and job_id = "''job1''"
            and secret = "[]" and tra = ?D and trb = ?D
            and dms_key_error = "ValueError ''DMS_API_KEY secret not found in Secret Manager''"
            and taxonomy_tag_id = JNull, THEN conjunct2, THEN conjunct2, THEN conjunct2, THEN conjunct2, THEN conjunct2, THEN conjunct2, THEN conjunct2, THEN conjunct2, THEN conjunct2, THEN conjunct1]
       d1 d2
  have part4: "ValueError ''DMS_API_KEY secret not found in Secret Manager'' \<noteq> job_not_found ''job1''"
    by blast
  have e1: "api_key_or_secret empty_secret_world None ''DLC_API_KEY'' [] = (Inr [], ?L)"
    by (simp add: empty_secret_world_def run_defs2)
  have e2: "DLCTaxonomyClient_init empty_secret_world None ''Foundations DBT Runner'' [] =
              (Inl (ValueError ''DLC_API_KEY secret not found in Secret Manager''), ?L)"
    by (simp add: DLCTaxonomyClient_init_def e1)
  from no_records_raise_value_error
         [where w = empty_secret_world and key = None and ?tr0.0 = "[]" and job_id = "''job1''"
            and secret' = "[]" and trc = ?L and trd = ?L and agent = "''Foundations DBT Runner''"
            and dlc_key_error = "ValueError ''DLC_API_KEY secret not found in Secret Manager''"
            and taxonomy_tag_id = JNull, THEN conjunct2, THEN conjunct2, THEN conjunct2, THEN conjunct2, THEN conjunct2, THEN conjunct2, THEN conjunct2, THEN conjunct2, THEN conjunct2, THEN conjunct2]
       e1 e2
  have part5: "ValueError ''DLC_API_KEY secret not found in Secret Manager'' \<noteq> job_not_found ''job1''"
    by blast
  from part1 part2 c1 part3 d2 part4 e2 part5 show ?thesis by simp
qed

text \<open>
  The not-found error and the error for the missing table name are both instances of
  \<^verbatim>\<open>ValueError\<close>: a handler tells them apart by the message, not by the class.
\<close>

lemma not_found_and_validation_share_class:
  \<open>fst (fetch_model_by_job_id no_job_world dev_client ''job1'' False []) =
       Inl (ValueError ''No job config found for jobId job1'')
   \<and> fst (fetch_model_by_job_id (job_only_world []) dev_client ''job1'' False []) =
       Inl (ValueError ''No 'foundations-table-name' found in config for jobId job1'')
   \<and> type_of_error (ValueError ''No job config found for jobId job1'') =
       type_of_error (ValueError ''No 'foundations-table-name' found in config for jobId job1'')\<close>
  by (simp add: run_defs2)

text \<open>
  Claim C10, as the code has it. When a search returns at least one record and the first
  record is a dict without a \<^verbatim>\<open>json\<close> field, the fetch returns the empty dict and raises
  nothing. For the job config, resolution then fails with the table-name error, after
  the warning, and not with a not-found error. For the shared config, the merge has the
  entries of the job config, so resolution returns the table name of the job config and
  fails with the table-name error only when the job config has none.
\<close>

theorem record_without_json_field:
  \<open>(requests_post w tr (documents_url w) (job_search job_id p) (dms_headers c) = Inr resp
      \<and> checked_json resp = Inr (JList (JDict record0 # others))
      \<and> map_of record0 ''json'' = None
     \<longrightarrow> fetch_job_config w c job_id p tr =
           (Inr (JDict []), tr @ [HttpPost (documents_url w) (job_search job_id p) (dms_headers c)])
         \<and> fetch_model_by_job_id w c job_id p tr =
           (Inl (ValueError (''No 'foundations-table-name' found in config for jobId '' @ job_id)),
            tr @ [HttpPost (documents_url w) (job_search job_id p) (dms_headers c),
                  Print (no_platform_tag_warning job_id)]))
   \<and> (fetch_job_config w c job_id p tr = (Inr (JDict job), tr1)
      \<and> distinct (map fst job)
      \<and> map_of job ''platformTag'' = Some platform_tag \<and> truthy platform_tag
      \<and> DLCTaxonomyClient_init w None ''Foundations DBT Runner'' tr1 = (Inr dlc, tr2)
      \<and> get_taxonomy_tag_id w dlc platform_tag tr2 = (Inr taxonomy_tag_id, dlc', tr3)
      \<and> requests_post w tr3 (documents_url w) (shared_search taxonomy_tag_id p) (dms_headers c)
           = Inr resp'
      \<and> checked_json resp' = Inr (JList (JDict record0' # others'))
      \<and> map_of record0' ''json'' = None
     \<longrightarrow> fetch_shared_platform_config w c taxonomy_tag_id p tr3 =
           (Inr (JDict []),
            tr3 @ [HttpPost (documents_url w) (shared_search taxonomy_tag_id p) (dms_headers c)])
         \<and> fetch_model_by_job_id w c job_id p tr =
           ((case map_of job ''foundations-table-name'' of
               None \<Rightarrow> Inl (ValueError (''No 'foundations-table-name' found in config for jobId '' @ job_id))
             | Some model \<Rightarrow>
                 if truthy model then Inr model
                 else Inl (ValueError (''No 'foundations-table-name' found in config for jobId '' @ job_id))),
            tr3 @ [HttpPost (documents_url w) (shared_search taxonomy_tag_id p) (dms_headers c)]))\<close>
proof (intro conjI impI)
  assume a: "requests_post w tr (documents_url w) (job_search job_id p) (dms_headers c) = Inr resp
      \<and> checked_json resp = Inr (JList (JDict record0 # others))
      \<and> map_of record0 ''json'' = None"
  then show f: "fetch_job_config w c job_id p tr =
      (Inr (JDict []), tr @ [HttpPost (documents_url w) (job_search job_id p) (dms_headers c)])"
    unfolding fetch_job_config_def by (intro search_documents_no_json) auto
  show "fetch_model_by_job_id w c job_id p tr =
           (Inl (ValueError (''No 'foundations-table-name' found in config for jobId '' @ job_id)),
            tr @ [HttpPost (documents_url w) (job_search job_id p) (dms_headers c),
                  Print (no_platform_tag_warning job_id)])"
    by (simp add: fetch_model_by_job_id_def resolve_config_def f no_table_name_def)
next
  assume a: "fetch_job_config w c job_id p tr = (Inr (JDict job), tr1)
      \<and> distinct (map fst job)
      \<and> map_of job ''platformTag'' = Some platform_tag \<and> truthy platform_tag
      \<and> DLCTaxonomyClient_init w None ''Foundations DBT Runner'' tr1 = (Inr dlc, tr2)
      \<and> get_taxonomy_tag_id w dlc platform_tag tr2 = (Inr taxonomy_tag_id, dlc', tr3)
      \<and> requests_post w tr3 (documents_url w) (shared_search taxonomy_tag_id p) (dms_headers c)
           = Inr resp'
      \<and> checked_json resp' = Inr (JList (JDict record0' # others'))
      \<and> map_of record0' ''json'' = None"
  then show sh: "fetch_shared_platform_config w c taxonomy_tag_id p tr3 =
      (Inr (JDict []),
       tr3 @ [HttpPost (documents_url w) (shared_search taxonomy_tag_id p) (dms_headers c)])"
    unfolding fetch_shared_platform_config_def by (intro search_documents_no_json) auto
  from a have tag: "py_get (JDict job) ''platformTag'' JNull = Inr platform_tag"
    by simp
  from a have cfg: "resolve_config w c job_id p tr =
      (Inr (JDict (deep_merge [] job)),
       tr3 @ [HttpPost (documents_url w) (shared_search taxonomy_tag_id p) (dms_headers c)])"
    using resolve_config_shared [OF _ tag _ _ _ sh, of job_id tr tr1 dlc tr2 dlc']
    by simp
  from a have look: "map_of (deep_merge [] job) ''foundations-table-name''
                       = map_of job ''foundations-table-name''"
    by (intro deep_merge_empty_base) simp
  show "fetch_model_by_job_id w c job_id p tr =
           ((case map_of job ''foundations-table-name'' of
               None \<Rightarrow> Inl (ValueError (''No 'foundations-table-name' found in config for jobId '' @ job_id))
             | Some model \<Rightarrow>
                 if truthy model then Inr model
                 else Inl (ValueError (''No 'foundations-table-name' found in config for jobId '' @ job_id))),
            tr3 @ [HttpPost (documents_url w) (shared_search taxonomy_tag_id p) (dms_headers c)])"
    by (simp add: fetch_model_by_job_id_def cfg look no_table_name_def split: option.splits)
qed

theorem record_without_json_field_witness:
  \<open>fetch_model_by_job_id
       (fixed_world (ok (JList [JDict [(''id'', JInt 1)]])) (ok (JList [])) (ok (JList [])))
       dev_client ''job1'' False [] =
     (Inl (ValueError ''No 'foundations-table-name' found in config for jobId job1''),
      [HttpPost ''https://dms/documents/get?keyed=true&json=true'' (job_search ''job1'' False)
         (dms_headers dev_client),
       Print ''Warning: No platformTag found in job config for jobId job1. Using job config only.''])
   \<and> fetch_shared_platform_config (spark_world_with_shared (JList [JDict [(''id'', JInt 1)]]))
         dev_client (JInt 7) False
         [HttpPost ''https://dms/documents/get?keyed=true&json=true'' (job_search ''job1'' False)
            (dms_headers dev_client),
          SecretAccess ''projects/foundations-dev/secrets/DLC_API_KEY/versions/latest'',
          HttpGet ''https://dlc/taxonomy'' (dlc_headers new_dlc_client)] =
       (Inr (JDict []),
        [HttpPost ''https://dms/documents/get?keyed=true&json=true'' (job_search ''job1'' False)
           (dms_headers dev_client),
         SecretAccess ''projects/foundations-dev/secrets/DLC_API_KEY/versions/latest'',
         HttpGet ''https://dlc/taxonomy'' (dlc_headers new_dlc_client),
         HttpPost ''https://dms/documents/get?keyed=true&json=true'' (shared_search (JInt 7) False)
           (dms_headers dev_client)])\<close>
proof -
  let ?P1 = "HttpPost ''https://dms/documents/get?keyed=true&json=true'' (job_search ''job1'' False)
               (dms_headers dev_client)"
  let ?S = "SecretAccess ''projects/foundations-dev/secrets/DLC_API_KEY/versions/latest''"
  let ?G = "HttpGet ''https://dlc/taxonomy'' (dlc_headers new_dlc_client)"
  let ?rec = "JList [JDict [(''id'', JInt 1)]]"
  let ?v = "fixed_world (ok ?rec) (ok (JList [])) (ok (JList []))"
  let ?w = "spark_world_with_shared ?rec"
  let ?job = "[(''platformTag'', JStr ''spark''), (''foundations-table-name'', JStr ''jobs.spark_x'')]"
  have url: "documents_url ?v = ''https://dms/documents/get?keyed=true&json=true''"
            "documents_url ?w = ''https://dms/documents/get?keyed=true&json=true''"
    by (simp_all add: run_defs2)
  have a1: "requests_post ?v [] (documents_url ?v) (job_search ''job1'' False)
              (dms_headers dev_client) = Inr (ok ?rec)"
    by (simp add: run_defs2)
  have a2: "checked_json (ok ?rec) = Inr (JList (JDict [(''id'', JInt 1)] # []))"
    by (simp add: run_defs2)
  have a3: "map_of [(''id'', JInt 1)] ''json'' = None"
    by simp
  have b1: "fetch_job_config ?w dev_client ''job1'' False [] = (Inr (JDict ?job), [?P1])"
    by (simp add: run_defs2)
  have b2: "distinct (map fst ?job)" "map_of ?job ''platformTag'' = Some (JStr ''spark'')"
           "truthy (JStr ''spark'')"
    by simp_all
  have b3: "DLCTaxonomyClient_init ?w None ''Foundations DBT Runner'' [?P1] =
              (Inr new_dlc_client, [?P1, ?S])"
    by (simp add: run_defs2)
  have b4: "get_taxonomy_tag_id ?w new_dlc_client (JStr ''spark'') [?P1, ?S] =
              (Inr (JInt 7), new_dlc_client\<lparr>taxonomy_cache := Some [(JStr ''spark'', JInt 7)]\<rparr>,
               [?P1, ?S, ?G])"
    by (simp add: run_defs2)
  have b5: "requests_post ?w [?P1, ?S, ?G] (documents_url ?w) (shared_search (JInt 7) False)
              (dms_headers dev_client) = Inr (ok ?rec)"
    by (simp add: run_defs2)
  from record_without_json_field
         [where w = ?v and tr = "[]" and job_id = "''job1''" and p = False and c = dev_client
            and resp = "ok ?rec" and ?record0.0 = "[(''id'', JInt 1)]" and others = "[]"]
       a1 a2 a3
  have part1: "fetch_model_by_job_id ?v dev_client ''job1'' False [] =
     (Inl (ValueError ''No 'foundations-table-name' found in config for jobId job1''),
      [?P1, Print ''Warning: No platformTag found in job config for jobId job1. Using job config only.''])"
    by (simp add: url no_platform_tag_warning_def)
  from record_without_json_field
         [where w = ?w and tr = "[]" and job_id = "''job1''" and p = False and c = dev_client
            and job = ?job and ?tr1.0 = "[?P1]" and platform_tag = "JStr ''spark''"
            and dlc = new_dlc_client and ?tr2.0 = "[?P1, ?S]" and taxonomy_tag_id = "JInt 7"
            and dlc' = "new_dlc_client\<lparr>taxonomy_cache := Some [(JStr ''spark'', JInt 7)]\<rparr>"
            and ?tr3.0 = "[?P1, ?S, ?G]" and resp' = "ok ?rec"
            and record0' = "[(''id'', JInt 1)]" and others' = "[]"]
       b1 b2 b3 b4 b5 a2 a3
  have part2: "fetch_shared_platform_config ?w dev_client (JInt 7) False [?P1, ?S, ?G] =
       (Inr (JDict []),
        [?P1, ?S, ?G,
         HttpPost ''https://dms/documents/get?keyed=true&json=true'' (shared_search (JInt 7) False)
           (dms_headers dev_client)])"
    by (simp add: url)
  from part1 part2 show ?thesis by simp
qed

text \<open>
  Claim C10 as stated says that resolution then fails. With the shared record lacking
  \<^verbatim>\<open>json\<close> and a table name in the job config, it succeeds.
\<close>

theorem shared_record_without_json_counterexample:
  "fst (fetch_model_by_job_id (spark_world_with_shared (JList [JDict [(''id'', JInt 1)]]))
          dev_client ''job1'' False []) = Inr (JStr ''jobs.spark_x'')"
  by (simp add: run_defs2)

section \<open>The Config Merger leaves its arguments alone\<close>

lemma length_store [simp]: "length (store h a k v) = length h"
  by (simp add: store_def)

lemma nth_store_other: "a \<noteq> m \<Longrightarrow> store h m k v ! a = h ! a"
  by (simp add: store_def)

lemma heap_frame:
  "deep_merge_heap n h base override = Some (r, h') \<Longrightarrow>
     r = length h \<and> length h < length h' \<and> (\<forall>a < length h. h' ! a = h ! a)"
  "merge_items n h merged items = Some h'' \<Longrightarrow> merged < length h \<Longrightarrow>
     length h \<le> length h'' \<and> (\<forall>a < length h. a \<noteq> merged \<longrightarrow> h'' ! a = h ! a)"
proof (induction n h base override and n h merged items arbitrary: r h' and h''
    rule: deep_merge_heap_merge_items.induct)
  case (1 h base override)
  then show ?case by simp
next
  case (2 n h base override)
  from "2.prems" obtain h2 where
    ok: "base < length h" "override < length h"
    and m: "merge_items n (h @ [h ! base]) (length h) (h ! override) = Some h2"
    and r: "r = length h" "h' = h2"
    by (auto split: if_splits option.splits)
  from "2.IH" [OF _ m] ok
  have "length (h @ [h ! base]) \<le> length h2"
    and "\<forall>a < length (h @ [h ! base]). a \<noteq> length h \<longrightarrow> h2 ! a = (h @ [h ! base]) ! a"
    by auto
  then show ?case
    using r by (auto simp: nth_append)
next
  case (3 n h merged)
  then show ?case by simp
next
  case (4 n h merged key override_value items)
  show ?case
  proof (cases "both_dicts (h ! merged) key override_value")
    case None
    with "4.prems" have m: "merge_items n (store h merged key override_value) merged items = Some h''"
      by simp
    from "4.IH"(1) [OF None m] "4.prems"(2) show ?thesis
      by (auto simp: nth_store_other)
  next
    case (Some p)
    obtain b ov where p: "p = (b, ov)" by (cases p)
    from "4.prems" Some p obtain r1 h1 where
      d: "deep_merge_heap n h b ov = Some (r1, h1)"
      and m: "merge_items n (store h1 merged key (HRef r1)) merged items = Some h''"
      by (auto split: option.splits)
    from "4.IH"(2) [OF Some p [symmetric] d]
    have f1: "r1 = length h" "length h < length h1" "\<forall>a < length h. h1 ! a = h ! a"
      by auto
    from "4.IH"(3) [OF Some p [symmetric] d refl m] "4.prems"(2) f1
    have f2: "length h1 \<le> length h''"
      "\<forall>a < length h1. a \<noteq> merged \<longrightarrow> h'' ! a = store h1 merged key (HRef r1) ! a"
      by auto
    show ?thesis
      using f1 f2 by (auto simp: nth_store_other)
  qed
qed

lemma both_dicts_Some:
  "both_dicts d key v = Some (b, ov) \<longleftrightarrow> map_of d key = Some (HRef b) \<and> v = HRef ov"
  by (auto simp: both_dicts_def split: option.splits hval.splits)

lemma closed_heap_snoc:
  "closed_heap h \<Longrightarrow> base < length h \<Longrightarrow> closed_heap (h @ [h ! base])"
  unfolding closed_heap_def
  by (auto simp: less_Suc_eq dest!: nth_mem)

lemma set_update_subset: "set (AList.update k v d) \<subseteq> insert (k, v) (set d)"
  by (induction d) auto

lemma closed_heap_store:
  assumes "closed_heap h" and "m < length h" and "\<And>b. v = HRef b \<Longrightarrow> b < length h"
  shows "closed_heap (store h m k v)"
  unfolding closed_heap_def
proof (intro ballI allI impI)
  fix d kv b
  assume d: "d \<in> set (store h m k v)" and kv: "kv \<in> set d" and b: "snd kv = HRef b"
  from d obtain a where a: "a < length h" "d = store h m k v ! a"
    by (auto simp: in_set_conv_nth)
  show "b < length (store h m k v)"
  proof (cases "a = m")
    case True
    with a assms(2) have "d = AList.update k v (h ! m)"
      by (simp add: store_def)
    with kv set_update_subset have "kv = (k, v) \<or> kv \<in> set (h ! m)"
      by fastforce
    then show ?thesis
    proof
      assume "kv = (k, v)"
      with b assms(3) show ?thesis by simp
    next
      assume "kv \<in> set (h ! m)"
      with assms(1,2) b show ?thesis
        unfolding closed_heap_def by (metis length_store nth_mem)
    qed
  next
    case False
    with a have "d = h ! a" by (simp add: nth_store_other)
    with a assms(1) kv b show ?thesis
      unfolding closed_heap_def by (metis length_store nth_mem)
  qed
qed

lemma heap_extends_trans:
  "heap_extends h0 h \<Longrightarrow> heap_extends h h' \<Longrightarrow> heap_extends h0 h'"
  by (auto simp: heap_extends_def)

lemma heap_total:
  "heap_extends h0 h \<Longrightarrow> layered_heap h0 \<Longrightarrow> closed_heap h \<Longrightarrow>
   base < length h \<Longrightarrow> override < length h0 \<Longrightarrow> override < n \<Longrightarrow>
     \<exists>h'. deep_merge_heap n h base override = Some (length h, h') \<and> closed_heap h'"
  "heap_extends h0 h \<Longrightarrow> layered_heap h0 \<Longrightarrow> closed_heap h \<Longrightarrow>
   length h0 \<le> merged \<Longrightarrow> merged < length h \<Longrightarrow>
   \<forall>kv \<in> set items. \<forall>ov. snd kv = HRef ov \<longrightarrow> ov < n \<and> ov < length h0 \<Longrightarrow>
     \<exists>h'. merge_items n h merged items = Some h' \<and> closed_heap h'"
proof (induction n h base override and n h merged items
    rule: deep_merge_heap_merge_items.induct)
  case (1 h base override)
  then show ?case by simp
next
  case (2 n h base override)
  let ?h1 = "h @ [h ! base]"
  from "2.prems" have ov: "override < length h" and ov0: "h ! override = h0 ! override"
    by (auto simp: heap_extends_def)
  have e1: "heap_extends h0 ?h1"
    using "2.prems"(1) by (auto simp: heap_extends_def nth_append)
  have c1: "closed_heap ?h1"
    using "2.prems"(3,4) by (rule closed_heap_snoc)
  have below: "\<forall>kv \<in> set (h0 ! override). \<forall>b. snd kv = HRef b \<longrightarrow> b < override"
    using "2.prems"(2,5) unfolding layered_heap_def by blast
  have items: "\<forall>kv \<in> set (h ! override). \<forall>b. snd kv = HRef b \<longrightarrow> b < n \<and> b < length h0"
    unfolding ov0
  proof (intro ballI allI impI)
    fix kv b
    assume "kv \<in> set (h0 ! override)" and "snd kv = HRef b"
    with below have "b < override" by blast
    with "2.prems"(5,6) show "b < n \<and> b < length h0" by linarith
  qed
  from "2.IH" [OF _ e1 "2.prems"(2) c1 _ _ items] "2.prems"(1,4) ov
  obtain h' where "merge_items n ?h1 (length h) (h ! override) = Some h'" "closed_heap h'"
    by (auto simp: heap_extends_def)
  then show ?case
    using "2.prems"(4) ov by auto
next
  case (3 n h merged)
  then show ?case by simp
next
  case (4 n h merged key override_value items)
  from "4.prems"(6) have rest:
    "\<forall>kv \<in> set items. \<forall>ov. snd kv = HRef ov \<longrightarrow> ov < n \<and> ov < length h0"
    by simp
  show ?case
  proof (cases "both_dicts (h ! merged) key override_value")
    case None
    let ?h1 = "store h merged key override_value"
    have e1: "heap_extends h0 ?h1"
      using "4.prems"(1,4) by (auto simp: heap_extends_def nth_store_other)
    have "\<And>b. override_value = HRef b \<Longrightarrow> b < length h"
      using "4.prems"(1,6) by (auto simp: heap_extends_def)
    with "4.prems"(3,5) have c1: "closed_heap ?h1"
      by (intro closed_heap_store)
    from "4.IH"(1) [OF None e1 "4.prems"(2) c1 "4.prems"(4) _ rest] "4.prems"(5) None
    show ?thesis by simp
  next
    case (Some p)
    obtain b ov where p: "p = (b, ov)" by (cases p)
    from Some p have bd: "map_of (h ! merged) key = Some (HRef b)" "override_value = HRef ov"
      by (simp_all add: both_dicts_Some)
    from bd(1) have "(key, HRef b) \<in> set (h ! merged)"
      by (rule map_of_SomeD)
    with "4.prems"(3,5) have b: "b < length h"
      unfolding closed_heap_def by (metis nth_mem snd_conv)
    from bd(2) "4.prems"(6) have ov: "ov < n" "ov < length h0"
      by auto
    from "4.IH"(2) [OF Some p [symmetric] "4.prems"(1,2,3) b ov(2,1)]
    obtain h1 where d: "deep_merge_heap n h b ov = Some (length h, h1)" and c1: "closed_heap h1"
      by blast
    from heap_frame(1) [OF d] have f: "length h < length h1" "\<forall>a < length h. h1 ! a = h ! a"
      by auto
    let ?h2 = "store h1 merged key (HRef (length h))"
    have e2: "heap_extends h0 ?h2"
      using "4.prems"(1,4) f by (auto simp: heap_extends_def nth_store_other)
    have c2: "closed_heap ?h2"
      using c1 "4.prems"(5) f by (intro closed_heap_store) auto
    from "4.IH"(3) [OF Some p [symmetric] d refl e2 "4.prems"(2) c2 "4.prems"(4) _ rest]
      "4.prems"(5) f
    obtain h' where "merge_items n ?h2 merged items = Some h'" "closed_heap h'"
      by auto
    with Some p d show ?thesis by simp
  qed
qed

lemma those_map_mono:
  "those (map f xs) = Some ys \<Longrightarrow> (\<And>x y. x \<in> set xs \<Longrightarrow> f x = Some y \<Longrightarrow> g x = Some y) \<Longrightarrow>
   those (map g xs) = Some ys"
proof (induction xs arbitrary: ys)
  case Nil
  then show ?case by simp
next
  case (Cons x xs)
  from Cons.prems(1) obtain y ys' where y: "f x = Some y" "those (map f xs) = Some ys'" "ys = y # ys'"
    by (auto split: option.splits)
  from Cons.prems(2) y(1) have "g x = Some y" by simp
  moreover from Cons.IH [OF y(2)] Cons.prems(2) have "those (map g xs) = Some ys'" by simp
  ultimately show ?case using y(3) by simp
qed

lemma json_of_extends:
  "heap_extends h h' \<Longrightarrow> json_of d h v = Some j \<Longrightarrow> json_of d h' v = Some j"
proof (induction d h v arbitrary: j rule: json_of.induct)
  case (5 d h xs)
  from "5.prems"(2) obtain ys where ys: "those (map (json_of d h) xs) = Some ys" "j = JList ys"
    by auto
  have "those (map (json_of d h') xs) = Some ys"
    using ys(1)
  proof (rule those_map_mono)
    fix x y
    assume "x \<in> set xs" and "json_of d h x = Some y"
    then show "json_of d h' x = Some y"
      using "5.IH" "5.prems"(1) by blast
  qed
  with ys(2) show ?case by simp
next
  case (7 d h a)
  from "7.prems"(2) obtain ys where a: "a < length h"
    and ys: "those (map (\<lambda>kv. map_option (Pair (fst kv)) (json_of d h (snd kv))) (h ! a)) = Some ys"
            "j = JDict ys"
    by (auto split: if_splits)
  from "7.prems"(1) a have same: "h' ! a = h ! a" "a < length h'"
    by (auto simp: heap_extends_def)
  have "those (map (\<lambda>kv. map_option (Pair (fst kv)) (json_of d h' (snd kv))) (h ! a)) = Some ys"
    using ys(1)
  proof (rule those_map_mono)
    fix kv y
    assume "kv \<in> set (h ! a)" and "map_option (Pair (fst kv)) (json_of d h (snd kv)) = Some y"
    then obtain z where z: "kv \<in> set (h ! a)" "json_of d h (snd kv) = Some z" "y = (fst kv, z)"
      by auto
    from "7.IH" [OF a z(1) "7.prems"(1) z(2)] z(3)
    show "map_option (Pair (fst kv)) (json_of d h' (snd kv)) = Some y"
      by simp
  qed
  with ys(2) same show ?case by simp
qed simp_all

lemma layered_closed:
  assumes "layered_heap h"
  shows "closed_heap h"
  unfolding closed_heap_def
proof (intro ballI allI impI)
  fix d kv b
  assume d: "d \<in> set h" and kv: "kv \<in> set d" and b: "snd kv = HRef b"
  from d obtain a where a: "a < length h" "d = h ! a"
    by (auto simp: in_set_conv_nth)
  with assms kv b have "b < a"
    unfolding layered_heap_def by blast
  with a show "b < length h" by simp
qed

lemma example_run:
  "deep_merge_heap 4 example_heap 2 3 = Some (4, merged_example_heap)"
  by (simp add: example_heap_def merged_example_heap_def store_def both_dicts_def
        eval_nat_numeral)

lemma example_layered: "layered_heap example_heap"
  by (simp add: layered_heap_def example_heap_def All_less_Suc eval_nat_numeral)

text \<open>
  Claim C5. When \<^verbatim>\<open>deep_merge(base, override)\<close> returns, the merged dict is a new
  object and every dict object that existed before the call is what it was: the two
  arguments, the dicts nested in them, and so every value, nested dict or leaf, that
  the store denoted before the call. The call does return on the dicts of a decoded
  document (a layered store), given a depth above the address of \<open>override\<close>.
\<close>

theorem deep_merge_leaves_arguments:
  "(deep_merge_heap n h base override = Some (merged, h')
      \<longrightarrow> merged = length h \<and> take (length h) h' = h
          \<and> h' ! base = h ! base \<and> h' ! override = h ! override
          \<and> (\<forall>d v j. json_of d h v = Some j \<longrightarrow> json_of d h' v = Some j))
   \<and> (layered_heap h \<and> base < length h \<and> override < length h \<and> override < n
      \<longrightarrow> (\<exists>h''. deep_merge_heap n h base override = Some (length h, h'')))"
proof (intro conjI impI)
  assume m: "deep_merge_heap n h base override = Some (merged, h')"
  from heap_frame(1) [OF m]
  have f: "merged = length h" "length h < length h'" "\<forall>a < length h. h' ! a = h ! a"
    by auto
  then have ext: "heap_extends h h'"
    by (simp add: heap_extends_def)
  from m have arg1: "base < length h"
    by (cases n) (auto split: if_splits)
  from m have arg2: "override < length h"
    by (cases n) (auto split: if_splits)
  show "merged = length h" by (rule f(1))
  show "take (length h) h' = h"
    using f(2,3) by (intro nth_equalityI) auto
  show "h' ! base = h ! base" using f(3) arg1 by simp
  show "h' ! override = h ! override" using f(3) arg2 by simp
  show "\<forall>d v j. json_of d h v = Some j \<longrightarrow> json_of d h' v = Some j"
    using ext by (blast intro: json_of_extends)
next
  assume a: "layered_heap h \<and> base < length h \<and> override < length h \<and> override < n"
  have "heap_extends h h" by (simp add: heap_extends_def)
  from heap_total(1) [OF this, of base override n] a layered_closed [of h]
  show "\<exists>h''. deep_merge_heap n h base override = Some (length h, h'')"
    by blast
qed

theorem deep_merge_leaves_arguments_witness:
  "deep_merge_heap 4 example_heap 2 3 = Some (4, merged_example_heap)
   \<and> take 4 merged_example_heap = example_heap
   \<and> merged_example_heap ! 2 = example_heap ! 2
   \<and> merged_example_heap ! 3 = example_heap ! 3
   \<and> layered_heap example_heap"
proof -
  have len: "length example_heap = 4"
    by (simp add: example_heap_def)
  from deep_merge_leaves_arguments [of 4 example_heap 2 3 4 merged_example_heap] example_run
  have "take (length example_heap) merged_example_heap = example_heap
        \<and> merged_example_heap ! 2 = example_heap ! 2
        \<and> merged_example_heap ! 3 = example_heap ! 3"
    by blast
  with example_run example_layered show ?thesis
    by (simp only: len)
qed

end
